theory Spec2Isabelle
  imports Complex_Main "HOL-Library.Multiset"
begin

section \<open>Python text and numbers used by the tracker\<close>

text \<open>
  The tracker (\<^verbatim>\<open>src/main.py\<close>, class \<^verbatim>\<open>StockTrackerApp\<close>) reads text from an entry
  widget, from a spin box, from the exchange's JSON rows and from its configuration file,
  and turns it into codes and numbers with \<^verbatim>\<open>str.strip\<close>, \<^verbatim>\<open>str.upper\<close>,
  \<^verbatim>\<open>str.isdigit\<close>, \<^verbatim>\<open>int\<close>, \<^verbatim>\<open>float\<close> and the format specifications
  \<^verbatim>\<open>.2f\<close>, \<^verbatim>\<open>+.2f\<close> and \<^verbatim>\<open>,\<close>. This section models those built-ins.

  A Python \<^verbatim>\<open>str\<close> is modelled as a \<^typ>\<open>string\<close> whose characters are the code points
  below 256; text with higher code points is outside the model.
\<close>

abbreviation dquote :: char where "dquote \<equiv> CHR 0x22"
abbreviation backslash :: char where "backslash \<equiv> CHR 0x5C"
abbreviation newline :: char where "newline \<equiv> CHR 0x0A"

text \<open>\<^verbatim>\<open>str.isspace\<close> on one character: the code points below 256 that
  \<^verbatim>\<open>str.strip\<close> removes.\<close>

definition py_isspace :: "char \<Rightarrow> bool" where
  "py_isspace c = (of_char c \<in> {9, 10, 11, 12, 13, 28, 29, 30, 31, 32, 133, 160 :: nat})"

definition strip :: "string \<Rightarrow> string" where
  "strip s = rev (dropWhile py_isspace (rev (dropWhile py_isspace s)))"

text \<open>The ASCII digits, and \<^verbatim>\<open>str.isdigit\<close>, which also accepts the superscript digits
  U+00B2, U+00B3 and U+00B9 and is false on the empty string.\<close>

definition is_dec :: "char \<Rightarrow> bool" where
  "is_dec c = (48 \<le> (of_char c :: nat) \<and> (of_char c :: nat) \<le> 57)"

definition py_isdigit :: "char \<Rightarrow> bool" where
  "py_isdigit c = (is_dec c \<or> of_char c \<in> {178, 179, 185 :: nat})"

definition isdigit :: "string \<Rightarrow> bool" where
  "isdigit s = (s \<noteq> [] \<and> list_all py_isdigit s)"

text \<open>\<^verbatim>\<open>str.upper\<close>: U+00DF becomes \<^verbatim>\<open>SS\<close>; the two letters whose capitals lie above
  U+00FF (U+00B5 and U+00FF) are left as they are.\<close>

definition upper_char :: "char \<Rightarrow> string" where
  "upper_char c =
     (let n = of_char c :: nat in
      if n = 223 then ''SS''
      else if (97 \<le> n \<and> n \<le> 122) \<or> (224 \<le> n \<and> n \<le> 254 \<and> n \<noteq> 247)
           then [char_of (n - 32)]
      else [c])"

definition upper :: "string \<Rightarrow> string" where
  "upper s = concat (map upper_char s)"

definition lower_char :: "char \<Rightarrow> char" where
  "lower_char c =
     (let n = of_char c :: nat in if 65 \<le> n \<and> n \<le> 90 then char_of (n + 32) else c)"

text \<open>\<^verbatim>\<open>str.replace(old, '')\<close> for a one-character \<^verbatim>\<open>old\<close>.\<close>

definition remove_char :: "char \<Rightarrow> string \<Rightarrow> string" where
  "remove_char c s = filter (\<lambda>d. d \<noteq> c) s"

subsection \<open>Integer and float literals\<close>

text \<open>The exceptions that building a quote record can raise, with the text Python reports.\<close>

datatype py_exception =
    IndexError
  | ValueError_int string
  | ValueError_float string

text \<open>A \<^verbatim>\<open>digitpart\<close> of Python's numeric grammar: digits, with single underscores
  allowed between two digits.\<close>

fun digitpart :: "string \<Rightarrow> bool" where
  "digitpart [] = False"
| "digitpart [c] = is_dec c"
| "digitpart (c # d # cs) =
     (is_dec c \<and> (if d = CHR ''_'' then digitpart cs else digitpart (d # cs)))"

definition digit_val :: "char \<Rightarrow> nat" where
  "digit_val c = of_char c - 48"

definition nat_of_digits :: "string \<Rightarrow> nat" where
  "nat_of_digits s = foldl (\<lambda>a c. 10 * a + digit_val c) 0 (filter is_dec s)"

definition split_sign :: "string \<Rightarrow> bool \<times> string" where
  "split_sign s =
     (case s of
        [] \<Rightarrow> (False, [])
      | c # cs \<Rightarrow> if c = CHR ''-'' then (True, cs)
                  else if c = CHR ''+'' then (False, cs) else (False, s))"

text \<open>
  \<^verbatim>\<open>int\<close> and \<^verbatim>\<open>float\<close> skip white space around the literal, but not the same
  characters as \<^verbatim>\<open>str.strip\<close>: they skip the six ASCII white space characters and
  the white space above U+007F, and raise on U+001C to U+001F.
\<close>

definition numeric_space :: "char \<Rightarrow> bool" where
  "numeric_space c = (of_char c \<in> {9, 10, 11, 12, 13, 32, 133, 160 :: nat})"

definition numeric_strip :: "string \<Rightarrow> string" where
  "numeric_strip s = rev (dropWhile numeric_space (rev (dropWhile numeric_space s)))"

text \<open>\<^verbatim>\<open>int(t)\<close> for a string \<^verbatim>\<open>t\<close>, base 10. A literal of more than 4300 digits is
  refused (the interpreter's default limit on the conversion).\<close>

definition max_str_digits :: nat where
  "max_str_digits = 4300"

definition py_int :: "string \<Rightarrow> py_exception + int" where
  "py_int t =
     (let (neg, ds) = split_sign (numeric_strip t) in
      if digitpart ds \<and> length (filter is_dec ds) \<le> max_str_digits
      then Inr (if neg then - int (nat_of_digits ds) else int (nat_of_digits ds))
      else Inl (ValueError_int t))"

text \<open>
  A Python float: a sign and a magnitude, an infinity, or a NaN. \<^verbatim>\<open>float(t)\<close> reads a
  decimal literal and rounds it to the nearest binary64 value. The rounding is not
  modelled; it is the parameter \<open>rnd\<close> of every function that parses a float, which maps
  the magnitude read to the magnitude stored, or to \<open>None\<close> when it overflows to infinity.
\<close>

datatype pyfloat = Finite bool rat | Infinity bool | NaN

definition digit_or_us :: "char \<Rightarrow> bool" where
  "digit_or_us c = (is_dec c \<or> c = CHR ''_'')"

definition exponent :: "string \<Rightarrow> int option" where
  "exponent s =
     (case s of
        [] \<Rightarrow> Some 0
      | c # cs \<Rightarrow>
          if c = CHR ''e'' \<or> c = CHR ''E''
          then (let (neg, ds) = split_sign cs in
                if digitpart ds
                then Some (if neg then - int (nat_of_digits ds) else int (nat_of_digits ds))
                else None)
          else None)"

definition scale10 :: "rat \<Rightarrow> int \<Rightarrow> rat" where
  "scale10 q e = (if 0 \<le> e then q * 10 ^ nat e else q / 10 ^ nat (- e))"

text \<open>The value of an unsigned \<^verbatim>\<open>floatnumber\<close>:
  \<^verbatim>\<open>[digitpart] "." digitpart | digitpart ["."]\<close>, then an optional exponent.\<close>

definition decimal :: "string \<Rightarrow> rat option" where
  "decimal u =
     (let ip = takeWhile digit_or_us u;
          r1 = dropWhile digit_or_us u;
          dot = (r1 \<noteq> [] \<and> hd r1 = CHR ''.'');
          fp = (if dot then takeWhile digit_or_us (tl r1) else []);
          r2 = (if dot then dropWhile digit_or_us (tl r1) else r1);
          mantissa_ok =
            (if dot
             then (ip = [] \<or> digitpart ip) \<and> (fp = [] \<or> digitpart fp) \<and> \<not> (ip = [] \<and> fp = [])
             else digitpart ip)
      in if mantissa_ok
         then (case exponent r2 of
                 None \<Rightarrow> None
               | Some e \<Rightarrow>
                   Some (scale10 (of_nat (nat_of_digits (ip @ fp)))
                           (e - int (length (filter is_dec fp)))))
         else None)"

definition py_float :: "(rat \<Rightarrow> rat option) \<Rightarrow> string \<Rightarrow> py_exception + pyfloat" where
  "py_float rnd t =
     (let (neg, u) = split_sign (numeric_strip t);
          l = map lower_char u
      in if l = ''inf'' \<or> l = ''infinity'' then Inr (Infinity neg)
         else if l = ''nan'' then Inr NaN
         else (case decimal u of
                 None \<Rightarrow> Inl (ValueError_float t)
               | Some q \<Rightarrow>
                   (case rnd q of
                      None \<Rightarrow> Inr (Infinity neg)
                    | Some m \<Rightarrow> Inr (Finite neg m))))"

subsection \<open>Formatting\<close>

definition digit_char :: "nat \<Rightarrow> char" where
  "digit_char n = ''0123456789'' ! (n mod 10)"

fun show_nat :: "nat \<Rightarrow> string" where
  "show_nat n = (if n < 10 then [digit_char n] else show_nat (n div 10) @ [digit_char n])"

declare show_nat.simps [simp del]

text \<open>Rounding to the nearest integer, ties to even, as Python's \<^verbatim>\<open>f\<close> presentation does on
  the exact value of the float.\<close>

definition round_half_even :: "rat \<Rightarrow> int" where
  "round_half_even q =
     (let f = \<lfloor>q\<rfloor>; r = q - of_int f in
      if r < 1 / 2 then f
      else if 1 / 2 < r then f + 1
      else if even f then f else f + 1)"

definition sign_str :: "bool \<Rightarrow> bool \<Rightarrow> string" where
  "sign_str always neg = (if neg then ''-'' else if always then ''+'' else [])"

text \<open>\<^verbatim>\<open>f"{x:.2f}"\<close> is \<open>fmt_2f False x\<close>, and \<^verbatim>\<open>f"{x:+.2f}"\<close> is \<open>fmt_2f True x\<close>.\<close>

fun fmt_2f :: "bool \<Rightarrow> pyfloat \<Rightarrow> string" where
  "fmt_2f always (Finite neg m) =
     (let n = nat (round_half_even (\<bar>m\<bar> * 100)) in
      sign_str always neg @ show_nat (n div 100) @ ''.'' @
      [digit_char (n div 10), digit_char n])"
| "fmt_2f always (Infinity neg) = sign_str always neg @ ''inf''"
| "fmt_2f always NaN = sign_str always False @ ''nan''"

text \<open>\<^verbatim>\<open>f"{v:,}"\<close> for an integer: a comma before every group of three digits, counted
  from the right.\<close>

fun group3 :: "string \<Rightarrow> string" where
  "group3 (a # b # c # d # ds) = a # b # c # CHR '','' # group3 (d # ds)"
| "group3 ds = ds"

definition fmt_grouped :: "int \<Rightarrow> string" where
  "fmt_grouped v =
     (if v < 0 then ''-'' else []) @ rev (group3 (rev (show_nat (nat \<bar>v\<bar>))))"

section \<open>The configuration file\<close>

text \<open>
  \<^verbatim>\<open>save_stocks\<close> writes \<^verbatim>\<open>json.dump(list(self.stocks.keys()), f)\<close> and
  \<^verbatim>\<open>load_stocks\<close> reads \<^verbatim>\<open>json.load(f)\<close>. Both are modelled on the text of the
  file, for the documents the tracker exchanges with itself: arrays of strings.
\<close>

subsection \<open>Writing: json.dump of a list of strings\<close>

definition hex_char :: "nat \<Rightarrow> char" where
  "hex_char n = ''0123456789abcdef'' ! (n mod 16)"

text \<open>The encoder's \<^verbatim>\<open>ensure_ascii\<close> escaping of one character: the quote, the backslash
  and five control characters have short escapes, the printable ASCII characters stand for
  themselves, and every other character is written \<^verbatim>\<open>\u00XX\<close>.\<close>

definition json_escape_char :: "char \<Rightarrow> string" where
  "json_escape_char c =
     (let n = of_char c :: nat in
      if c = dquote then [backslash, dquote]
      else if c = backslash then [backslash, backslash]
      else if n = 8 then [backslash, CHR ''b'']
      else if n = 12 then [backslash, CHR ''f'']
      else if n = 10 then [backslash, CHR ''n'']
      else if n = 13 then [backslash, CHR ''r'']
      else if n = 9 then [backslash, CHR ''t'']
      else if 32 \<le> n \<and> n \<le> 126 then [c]
      else [backslash, CHR ''u'', CHR ''0'', CHR ''0'', hex_char (n div 16), hex_char n])"

definition json_string :: "string \<Rightarrow> string" where
  "json_string s = dquote # concat (map json_escape_char s) @ [dquote]"

fun join :: "string \<Rightarrow> string list \<Rightarrow> string" where
  "join sep [] = []"
| "join sep [x] = x"
| "join sep (x # y # ys) = x @ sep @ join sep (y # ys)"

definition json_dump :: "string list \<Rightarrow> string" where
  "json_dump codes = ''['' @ join '', '' (map json_string codes) @ '']''"

subsection \<open>Reading: json.load of an array of strings\<close>

definition json_ws :: "char \<Rightarrow> bool" where
  "json_ws c = (of_char c \<in> {32, 9, 10, 13 :: nat})"

definition hex_val :: "char \<Rightarrow> nat option" where
  "hex_val c =
     (let n = of_char c :: nat in
      if 48 \<le> n \<and> n \<le> 57 then Some (n - 48)
      else if 97 \<le> n \<and> n \<le> 102 then Some (n - 87)
      else if 65 \<le> n \<and> n \<le> 70 then Some (n - 55)
      else None)"

definition hex4 :: "char \<Rightarrow> char \<Rightarrow> char \<Rightarrow> char \<Rightarrow> nat option" where
  "hex4 a b c d =
     (case (hex_val a, hex_val b, hex_val c, hex_val d) of
        (Some w, Some x, Some y, Some z) \<Rightarrow> Some (4096 * w + 256 * x + 16 * y + z)
      | _ \<Rightarrow> None)"

definition unescape :: "char \<Rightarrow> char option" where
  "unescape e =
     (if e = dquote then Some dquote
      else if e = backslash then Some backslash
      else if e = CHR ''/'' then Some (CHR ''/'')
      else if e = CHR ''b'' then Some (CHR 0x08)
      else if e = CHR ''f'' then Some (CHR 0x0C)
      else if e = CHR ''n'' then Some (CHR 0x0A)
      else if e = CHR ''r'' then Some (CHR 0x0D)
      else if e = CHR ''t'' then Some (CHR 0x09)
      else None)"

definition cons_result :: "char \<Rightarrow> (string \<times> string) option \<Rightarrow> (string \<times> string) option" where
  "cons_result c r = (case r of None \<Rightarrow> None | Some (s, rest) \<Rightarrow> Some (c # s, rest))"

text \<open>
  The decoder's string scanner, started after the opening quote: the decoded string and the
  text after the closing quote, or \<open>None\<close> where the decoder raises (no closing quote, a
  control character, a bad escape). An escape \<^verbatim>\<open>\uXXXX\<close> of a code point above 255 is
  outside the model's strings and is refused as well.
\<close>

fun scan_string :: "string \<Rightarrow> (string \<times> string) option" where
  "scan_string [] = None"
| "scan_string (c # cs) =
     (if c = dquote then Some ([], cs)
      else if c = backslash then
        (case cs of
           [] \<Rightarrow> None
         | e # r \<Rightarrow>
             if e = CHR ''u'' then
               (case r of
                  h1 # h2 # h3 # h4 # r' \<Rightarrow>
                    (case hex4 h1 h2 h3 h4 of
                       None \<Rightarrow> None
                     | Some n \<Rightarrow> if n < 256 then cons_result (char_of n) (scan_string r') else None)
                | _ \<Rightarrow> None)
             else (case unescape e of
                     None \<Rightarrow> None
                   | Some ch \<Rightarrow> cons_result ch (scan_string r)))
      else if (of_char c :: nat) < 32 then None
      else cons_result c (scan_string cs))"

lemma cons_result_Some:
  "cons_result c r = Some (s, rest) \<Longrightarrow> \<exists>s'. r = Some (s', rest) \<and> s = c # s'"
  by (cases r) (auto simp: cons_result_def)

lemma scan_string_shorter: "scan_string s = Some (x, rest) \<Longrightarrow> length rest < length s"
proof (induction s arbitrary: x rest rule: scan_string.induct)
  case 1
  then show ?case by simp
next
  case (2 c cs)
  show ?case
  proof (cases "c = dquote")
    case True
    with "2.prems" show ?thesis by simp
  next
    case nq: False
    show ?thesis
    proof (cases "c = backslash")
      case False
      with nq "2.prems" obtain x' where "scan_string cs = Some (x', rest)"
        by (auto split: if_splits dest: cons_result_Some)
      with "2.IH"(3) nq False "2.prems" have "length rest < length cs"
        by (auto split: if_splits)
      then show ?thesis by simp
    next
      case bs: True
      show ?thesis
      proof (cases cs)
        case Nil
        with nq bs "2.prems" show ?thesis by simp
      next
        case (Cons e r)
        show ?thesis
        proof (cases "e = CHR ''u''")
          case False
          with nq bs Cons "2.prems" obtain ch x' where
            "unescape e = Some ch" "scan_string r = Some (x', rest)"
            by (auto split: option.splits dest: cons_result_Some)
          with "2.IH"(2) nq bs Cons False have "length rest < length r"
            by auto
          with Cons show ?thesis by simp
        next
          case u: True
          with nq bs Cons "2.prems" obtain h1 h2 h3 h4 r' n x' where
            r: "r = h1 # h2 # h3 # h4 # r'" and h: "hex4 h1 h2 h3 h4 = Some n" "n < 256"
            and sc: "scan_string r' = Some (x', rest)"
            by (auto split: list.splits option.splits if_splits dest: cons_result_Some)
          with "2.IH"(1) nq bs Cons u have "length rest < length r'"
            by auto
          with Cons r show ?thesis by simp
        qed
      qed
    qed
  qed
qed

text \<open>The elements of a non-empty array, started at the first element: strings separated
  by commas, up to the closing bracket, after which only whitespace may follow.\<close>

function scan_elems :: "string \<Rightarrow> string list option" where
  "scan_elems s =
     (case s of
        [] \<Rightarrow> None
      | c # r \<Rightarrow>
          if c \<noteq> dquote then None
          else (case scan_string r of
                  None \<Rightarrow> None
                | Some (x, r1) \<Rightarrow>
                    (case dropWhile json_ws r1 of
                       [] \<Rightarrow> None
                     | d # r2 \<Rightarrow>
                         if d = CHR '']''
                         then (if dropWhile json_ws r2 = [] then Some [x] else None)
                         else if d = CHR '',''
                         then map_option (Cons x) (scan_elems (dropWhile json_ws r2))
                         else None)))"
  by pat_completeness auto
termination
proof (relation "measure length")
  show "wf (measure length)" by simp
next
  fix s :: string and c r xr x r1 d r2
  assume s: "s = c # r" and sc: "scan_string r = Some xr" "(x, r1) = xr"
    and dw: "dropWhile json_ws r1 = d # r2"
  from sc have "length r1 < length r" by (auto dest: scan_string_shorter)
  moreover have "length (dropWhile json_ws r1) \<le> length r1" by (rule length_dropWhile_le)
  moreover have "length (dropWhile json_ws r2) \<le> length r2" by (rule length_dropWhile_le)
  ultimately show "(dropWhile json_ws r2, s) \<in> measure length"
    using s dw by simp
qed

declare scan_elems.simps [simp del]

text \<open>
  \<^verbatim>\<open>json.load\<close> on the text of the file: \<open>Some codes\<close> when the text is a JSON array of
  strings, \<open>None\<close> otherwise. \<open>None\<close> covers every text on which the decoder raises; a
  text that is valid JSON of another shape (a number, an object, an array holding a
  non-string) is outside the model and is given \<open>None\<close> too.
\<close>

definition json_load :: "string \<Rightarrow> string list option" where
  "json_load text =
     (case dropWhile json_ws text of
        [] \<Rightarrow> None
      | c # r \<Rightarrow>
          if c \<noteq> CHR ''['' then None
          else (case dropWhile json_ws r of
                  [] \<Rightarrow> None
                | d # r' \<Rightarrow>
                    if d = CHR '']''
                    then (if dropWhile json_ws r' = [] then Some [] else None)
                    else scan_elems (d # r')))"

section \<open>The tracker's state\<close>

text \<open>One quote record: the dictionary \<^verbatim>\<open>stock_info\<close> that \<^verbatim>\<open>fetch_stock\<close> builds.\<close>

record stock_info =
  code :: string
  name :: string
  price :: pyfloat
  change :: pyfloat
  volume :: int
  open' :: pyfloat
  high :: pyfloat
  low :: pyfloat
  timestamp :: string

text \<open>
  \<^verbatim>\<open>self.stocks\<close> is a Python dictionary, which keeps its keys in insertion order:
  an association list in which assigning to a present key replaces its value in place and
  assigning to an absent key appends.
\<close>

type_synonym 'v dict = "(string \<times> 'v) list"

definition keys :: "'v dict \<Rightarrow> string list" where
  "keys d = map fst d"

fun dict_set :: "string \<Rightarrow> 'v \<Rightarrow> 'v dict \<Rightarrow> 'v dict" where
  "dict_set k v [] = [(k, v)]"
| "dict_set k v ((k', v') # d) = (if k' = k then (k', v) # d else (k', v') # dict_set k v d)"

definition dict_get :: "'v dict \<Rightarrow> string \<Rightarrow> 'v option" where
  "dict_get d k = map_of d k"

definition dict_del :: "string \<Rightarrow> 'v dict \<Rightarrow> 'v dict" where
  "dict_del k d = filter (\<lambda>kv. fst kv \<noteq> k) d"

text \<open>What the exchange answers to one request. \<^verbatim>\<open>requests.get\<close>,
  \<^verbatim>\<open>raise_for_status\<close> or \<^verbatim>\<open>response.json\<close> raises (a timeout, a connection
  error, or any other exception, kept with its text), or the JSON document arrives: an
  object with an optional \<^verbatim>\<open>name\<close> and an optional \<^verbatim>\<open>data\<close>, a list of rows of
  text fields, as the exchange sends them. A document of another shape is outside the
  model.\<close>

datatype request_exception = Timeout | ConnectionError | OtherException string

record payload =
  p_name :: "string option"
  p_data :: "string list list option"

datatype response = Raises request_exception | Json payload

text \<open>What one run of \<^verbatim>\<open>fetch_stock\<close> reads from its environment: the two readings of
  the clock, the exchange's answer, and whether the configuration file can be written.\<close>

record fetch_env =
  today :: string
  response :: response
  now :: string
  disk_ok :: bool

text \<open>The message boxes and log lines the tracker produces.\<close>

datatype message =
    Warning_empty_code
  | Warning_not_4_digits
  | Warning_duplicate string
  | Warning_no_selection
  | Warning_nothing_to_export
  | Error_not_found string
  | Error_timeout string
  | Error_connection
  | Error_other string
  | Error_build py_exception
  | Error_export_failed
  | Info_exported string
  | Print_save_failed
  | Print_load_failed

datatype tag = Up | Down | Untagged

text \<open>
  The fields of \<^verbatim>\<open>StockTrackerApp\<close> and of the widgets it reads, and what it has
  handed to its environment: the fetch threads started and not yet run (each with its
  \<^verbatim>\<open>code\<close> argument), the pending \<^verbatim>\<open>root.after\<close> callbacks (each is
  \<^verbatim>\<open>schedule_refresh\<close>, with its delay), the URLs requested, the messages shown, and the
  files exported.
\<close>

record state =
  stocks :: "stock_info dict"
  config_file :: "string option"
  auto_refresh_active :: bool
  refresh_interval :: int
  auto_refresh_var :: bool
  interval_var :: string
  stock_input :: string
  tree :: "(string list \<times> tag) list"
  threads :: "string list"
  timers :: "int list"
  requests :: "string list"
  messages :: "message list"
  exports :: "(string \<times> string) list"

definition notify :: "message \<Rightarrow> state \<Rightarrow> state" where
  "notify m s = s\<lparr>messages := messages s @ [m]\<rparr>"

definition start_thread :: "string \<Rightarrow> state \<Rightarrow> state" where
  "start_thread c s = s\<lparr>threads := threads s @ [c]\<rparr>"

section \<open>The operations of StockTrackerApp\<close>

subsection \<open>add_stock\<close>

definition add_stock :: "state \<Rightarrow> state" where
  "add_stock s =
     (let c = upper (strip (stock_input s)) in
      if c = [] then notify Warning_empty_code s
      else if \<not> isdigit c \<or> length c \<noteq> 4 then notify Warning_not_4_digits s
      else if c \<in> set (keys (stocks s)) then notify (Warning_duplicate c) s
      else (start_thread c s)\<lparr>stock_input := []\<rparr>)"

subsection \<open>update_table and save_stocks\<close>

definition positive :: "pyfloat \<Rightarrow> bool" where
  "positive x = (case x of Finite neg m \<Rightarrow> \<not> neg \<and> m \<noteq> 0 | Infinity neg \<Rightarrow> \<not> neg | NaN \<Rightarrow> False)"

definition negative :: "pyfloat \<Rightarrow> bool" where
  "negative x = (case x of Finite neg m \<Rightarrow> neg \<and> m \<noteq> 0 | Infinity neg \<Rightarrow> neg | NaN \<Rightarrow> False)"

definition table_row :: "string \<times> stock_info \<Rightarrow> string list \<times> tag" where
  "table_row kv =
     (let c = fst kv; stock = snd kv in
      ([c, name stock, fmt_2f False (price stock), fmt_2f True (change stock),
        fmt_2f False (open' stock), fmt_2f False (high stock), fmt_2f False (low stock),
        fmt_grouped (volume stock), timestamp stock],
       if positive (change stock) then Up
       else if negative (change stock) then Down
       else Untagged))"

definition update_table :: "state \<Rightarrow> state" where
  "update_table s = s\<lparr>tree := map table_row (stocks s)\<rparr>"

text \<open>\<^verbatim>\<open>save_stocks\<close> catches every exception of opening and writing the file and prints
  it; \<open>ok\<close> says whether the file could be opened for writing.\<close>

definition save_stocks :: "bool \<Rightarrow> state \<Rightarrow> state" where
  "save_stocks ok s =
     (if ok then s\<lparr>config_file := Some (json_dump (keys (stocks s)))\<rparr>
      else notify Print_save_failed s)"

subsection \<open>fetch_stock\<close>

definition url :: "string \<Rightarrow> string \<Rightarrow> string" where
  "url date_str c =
     ''https://www.twse.com.tw/exchangeReport/STOCK_DAY?response=json&date='' @ date_str @
     ''&stockNo='' @ c"

definition and_then :: "py_exception + 'a \<Rightarrow> ('a \<Rightarrow> py_exception + 'b) \<Rightarrow> py_exception + 'b" where
  "and_then r f = (case r of Inl e \<Rightarrow> Inl e | Inr v \<Rightarrow> f v)"

text \<open>\<^verbatim>\<open>latest[i]\<close> for a non-negative \<^verbatim>\<open>i\<close>.\<close>

definition item :: "string list \<Rightarrow> nat \<Rightarrow> py_exception + string" where
  "item latest i = (if i < length latest then Inr (latest ! i) else Inl IndexError)"

text \<open>The dictionary display of \<^verbatim>\<open>fetch_stock\<close>, its entries evaluated in the order
  written: price, change, volume, open, high, low. The first entry that raises decides
  the exception.\<close>

definition make_stock_info ::
  "(rat \<Rightarrow> rat option) \<Rightarrow> string \<Rightarrow> payload \<Rightarrow> string list \<Rightarrow> string \<Rightarrow> py_exception + stock_info" where
  "make_stock_info rnd c p latest ts =
     and_then (and_then (item latest 6) (py_float rnd)) (\<lambda>pr.
     and_then (and_then (item latest 7) (py_float rnd)) (\<lambda>ch.
     and_then (and_then (item latest 1) (\<lambda>t. py_int (remove_char (CHR '','') t))) (\<lambda>vol.
     and_then (and_then (item latest 3) (py_float rnd)) (\<lambda>op.
     and_then (and_then (item latest 4) (py_float rnd)) (\<lambda>hi.
     and_then (and_then (item latest 5) (py_float rnd)) (\<lambda>lo.
     Inr \<lparr>code = c, name = (case p_name p of None \<Rightarrow> c | Some n \<Rightarrow> n),
          price = pr, change = ch, volume = vol, open' = op, high = hi, low = lo,
          timestamp = ts\<rparr>))))))"

text \<open>The three \<^verbatim>\<open>except\<close> clauses of \<^verbatim>\<open>fetch_stock\<close> for what the request raises.\<close>

definition request_failed :: "string \<Rightarrow> request_exception \<Rightarrow> state \<Rightarrow> state" where
  "request_failed c e s =
     (case e of
        Timeout \<Rightarrow> notify (Error_timeout c) s
      | ConnectionError \<Rightarrow> notify Error_connection s
      | OtherException text \<Rightarrow> notify (Error_other text) s)"

text \<open>
  \<^verbatim>\<open>fetch_stock(code)\<close>, run as one step. The request is logged; then either one of
  the \<^verbatim>\<open>except\<close> clauses or the not-found branch shows a message, or the record is
  stored under \<^verbatim>\<open>code\<close>, the table redrawn and the list of codes saved. The redraw
  is a sequence of widget calls and is taken not to raise; \<^verbatim>\<open>save_stocks\<close> catches
  its own exceptions.
\<close>

definition fetch_stock :: "(rat \<Rightarrow> rat option) \<Rightarrow> string \<Rightarrow> fetch_env \<Rightarrow> state \<Rightarrow> state" where
  "fetch_stock rnd c env s =
     (let s1 = s\<lparr>requests := requests s @ [url (today env) c]\<rparr> in
      case response env of
        Raises e \<Rightarrow> request_failed c e s1
      | Json p \<Rightarrow>
          (case p_data p of
             None \<Rightarrow> notify (Error_not_found c) s1
           | Some rows \<Rightarrow>
               if rows = [] then notify (Error_not_found c) s1
               else (case make_stock_info rnd c p (last rows) (now env) of
                       Inl e \<Rightarrow> notify (Error_build e) s1
                     | Inr stock_info \<Rightarrow>
                         save_stocks (disk_ok env)
                           (update_table (s1\<lparr>stocks := dict_set c stock_info (stocks s1)\<rparr>)))))"

subsection \<open>Refreshing and the timer\<close>

text \<open>The loops \<^verbatim>\<open>for code in ...: thread.start()\<close> of \<^verbatim>\<open>refresh_all_stocks\<close> and
  \<^verbatim>\<open>load_stocks\<close>.\<close>

primrec start_threads :: "string list \<Rightarrow> state \<Rightarrow> state" where
  "start_threads [] s = s"
| "start_threads (c # cs) s = start_threads cs (start_thread c s)"

definition refresh_all_stocks :: "state \<Rightarrow> state" where
  "refresh_all_stocks s = (if stocks s = [] then s else start_threads (keys (stocks s)) s)"

text \<open>\<^verbatim>\<open>root.after(self.refresh_interval, self.schedule_refresh)\<close> adds one pending
  callback; nothing in the program cancels a callback.\<close>

definition schedule_refresh :: "state \<Rightarrow> state" where
  "schedule_refresh s =
     (if auto_refresh_var s
      then (let s1 = refresh_all_stocks s in s1\<lparr>timers := timers s1 @ [refresh_interval s1]\<rparr>)
      else s)"

definition toggle_auto_refresh :: "state \<Rightarrow> state" where
  "toggle_auto_refresh s =
     (if auto_refresh_var s then schedule_refresh s else s\<lparr>auto_refresh_active := False\<rparr>)"

definition update_refresh_interval :: "state \<Rightarrow> state" where
  "update_refresh_interval s =
     (case py_int (interval_var s) of
        Inl e \<Rightarrow> s
      | Inr n \<Rightarrow>
          (let s1 = s\<lparr>refresh_interval := n * 1000\<rparr> in
           if auto_refresh_var s1 then schedule_refresh s1 else s1))"

text \<open>A pending callback comes due: it leaves the list and \<^verbatim>\<open>schedule_refresh\<close> runs.\<close>

definition timer_fires :: "nat \<Rightarrow> state \<Rightarrow> state" where
  "timer_fires i s =
     (if i < length (timers s)
      then schedule_refresh (s\<lparr>timers := take i (timers s) @ drop (Suc i) (timers s)\<rparr>)
      else s)"

text \<open>
  \<^verbatim>\<open>update_refresh_interval\<close> has one caller: it is the \<^verbatim>\<open>command\<close> of the spin
  box that \<^verbatim>\<open>init_ui\<close> creates with \<^verbatim>\<open>from_=5\<close> and \<^verbatim>\<open>to=300\<close>, and with the
  default increment, format and wrapping. Tk runs the command from
  \<^verbatim>\<open>ttk::spinbox::Spin\<close>, when an arrow is pressed, after it has replaced the text:
  \<^verbatim>\<open>
  if {[catch {
      set v [expr {[scan [$w get] %f] + $dir * [$w cget -increment]}]
  }]} {
      set v [$w cget -from]
  }
  $w set [FormatValue $w [Adjust $w $v [$w cget -from] [$w cget -to]]]
  ...
  uplevel #0 [$w cget -command]
  \<close>
  The value \<^verbatim>\<open>v\<close> that Tcl computes from the text and the arrow is not modelled; it is
  given with the event: a number, an infinity, or nothing when the expression raises
  (the text is not a number). \<^verbatim>\<open>Adjust\<close> without wrapping is \<^verbatim>\<open>Limit\<close>, and
  \<^verbatim>\<open>FormatValue\<close> with the default increment formats with \<^verbatim>\<open>%.0f\<close>.
\<close>

datatype tcl_value = Number rat | Plus_infinity | Minus_infinity

definition spin_from :: rat where
  "spin_from = 5"

definition spin_to :: rat where
  "spin_to = 300"

definition limit :: "tcl_value \<Rightarrow> rat" where
  "limit v =
     (case v of
        Number q \<Rightarrow> if q < spin_from then spin_from else if spin_to < q then spin_to else q
      | Plus_infinity \<Rightarrow> spin_to
      | Minus_infinity \<Rightarrow> spin_from)"

text \<open>\<^verbatim>\<open>format %.0f\<close> of a number that is not negative.\<close>

definition format_value :: "rat \<Rightarrow> string" where
  "format_value q = show_nat (nat (round_half_even q))"

definition spin :: "tcl_value option \<Rightarrow> state \<Rightarrow> state" where
  "spin v s =
     update_refresh_interval
       (s\<lparr>interval_var :=
            format_value (limit (case v of None \<Rightarrow> Number spin_from | Some x \<Rightarrow> x))\<rparr>)"

text \<open>A started thread runs \<^verbatim>\<open>fetch_stock\<close> with its argument.\<close>

definition thread_runs :: "(rat \<Rightarrow> rat option) \<Rightarrow> string \<Rightarrow> fetch_env \<Rightarrow> state \<Rightarrow> state" where
  "thread_runs rnd c env s =
     (if c \<in> set (threads s)
      then fetch_stock rnd c env (s\<lparr>threads := remove1 c (threads s)\<rparr>)
      else s)"

subsection \<open>delete_selected and clear_all\<close>

text \<open>\<open>selected\<close> holds the first column of every selected row of the table.\<close>

definition delete_selected :: "string list \<Rightarrow> bool \<Rightarrow> state \<Rightarrow> state" where
  "delete_selected selected ok s =
     (if selected = [] then notify Warning_no_selection s
      else save_stocks ok
             (update_table (s\<lparr>stocks := foldl (\<lambda>d c. dict_del c d) (stocks s) selected\<rparr>)))"

definition clear_all :: "bool \<Rightarrow> bool \<Rightarrow> state \<Rightarrow> state" where
  "clear_all confirmed ok s =
     (if confirmed then save_stocks ok (update_table (s\<lparr>stocks := []\<rparr>)) else s)"

subsection \<open>export_data\<close>

text \<open>
  The file is opened with \<^verbatim>\<open>encoding='utf-8-sig'\<close> in text mode: a byte order mark,
  then the UTF-8 encoding of what is written, every newline written as the platform's
  line separator \<open>linesep\<close>. The header's column names are given by their UTF-8 bytes.
\<close>

definition col_code :: string where
  "col_code = [CHR 0xE4, CHR 0xBB, CHR 0xA3, CHR 0xE7, CHR 0xA2, CHR 0xBC]"

definition col_name :: string where
  "col_name = [CHR 0xE5, CHR 0x90, CHR 0x8D, CHR 0xE7, CHR 0xA8, CHR 0xB1]"

definition col_price :: string where
  "col_price = [CHR 0xE7, CHR 0x8F, CHR 0xBE, CHR 0xE5, CHR 0x83, CHR 0xB9]"

definition col_change :: string where
  "col_change = [CHR 0xE6, CHR 0xBC, CHR 0xB2, CHR 0xE8, CHR 0xB7, CHR 0x8C]"

definition col_open :: string where
  "col_open = [CHR 0xE9, CHR 0x96, CHR 0x8B, CHR 0xE7, CHR 0x9B, CHR 0xA4]"

definition col_high :: string where
  "col_high = [CHR 0xE6, CHR 0x9C, CHR 0x80, CHR 0xE9, CHR 0xAB, CHR 0x98]"

definition col_low :: string where
  "col_low = [CHR 0xE6, CHR 0x9C, CHR 0x80, CHR 0xE4, CHR 0xBD, CHR 0x8E]"

definition col_volume :: string where
  "col_volume = [CHR 0xE6, CHR 0x88, CHR 0x90, CHR 0xE4, CHR 0xBA, CHR 0xA4, CHR 0xE9, CHR 0x87, CHR 0x8F]"

definition col_timestamp :: string where
  "col_timestamp =
     [CHR 0xE6, CHR 0x9B, CHR 0xB4, CHR 0xE6, CHR 0x96, CHR 0xB0, CHR 0xE6, CHR 0x99, CHR 0x82,
      CHR 0xE9, CHR 0x96, CHR 0x93]"

definition header_columns :: "string list" where
  "header_columns =
     [col_code, col_name, col_price, col_change, col_open, col_high, col_low, col_volume,
      col_timestamp]"

definition bom :: string where
  "bom = [CHR 0xEF, CHR 0xBB, CHR 0xBF]"

definition utf8_char :: "char \<Rightarrow> string" where
  "utf8_char c =
     (let n = of_char c :: nat in
      if n < 128 then [c] else [char_of (192 + n div 64), char_of (128 + n mod 64)])"

definition write_text :: "string \<Rightarrow> string \<Rightarrow> string" where
  "write_text linesep t = concat (map (\<lambda>c. if c = newline then linesep else utf8_char c) t)"

text \<open>The fields of one data row, in the order the f-string of \<^verbatim>\<open>export_data\<close> writes
  them, and the row itself.\<close>

definition csv_fields :: "string \<times> stock_info \<Rightarrow> string list" where
  "csv_fields kv =
     (let c = fst kv; stock = snd kv in
      [c, name stock, fmt_2f False (price stock), fmt_2f True (change stock),
       fmt_2f False (open' stock), fmt_2f False (high stock), fmt_2f False (low stock),
       fmt_grouped (volume stock), timestamp stock])"

definition csv_line :: "string \<times> stock_info \<Rightarrow> string" where
  "csv_line kv = join '','' (csv_fields kv) @ [newline]"

definition export_content :: "string \<Rightarrow> stock_info dict \<Rightarrow> string" where
  "export_content linesep d =
     bom @ join '','' header_columns @ linesep @
     concat (map (\<lambda>kv. write_text linesep (csv_line kv)) d)"

text \<open>\<open>file_path\<close> is what the file dialog returns (empty when it is cancelled) and \<open>ok\<close>
  says whether the file could be written.\<close>

definition export_data :: "string \<Rightarrow> string \<Rightarrow> bool \<Rightarrow> state \<Rightarrow> state" where
  "export_data linesep file_path ok s =
     (if stocks s = [] then notify Warning_nothing_to_export s
      else if file_path = [] then s
      else if ok
      then notify (Info_exported file_path)
             (s\<lparr>exports := exports s @ [(file_path, export_content linesep (stocks s))]\<rparr>)
      else notify Error_export_failed s)"

subsection \<open>load_stocks and the constructor\<close>

text \<open>\<^verbatim>\<open>load_stocks\<close> does nothing when the file does not exist, prints a line when
  reading it raises, and otherwise starts one thread per element. The file, when it
  exists, is taken to be readable.\<close>

definition load_stocks :: "state \<Rightarrow> state" where
  "load_stocks s =
     (case config_file s of
        None \<Rightarrow> s
      | Some text \<Rightarrow>
          (case json_load text of
             None \<Rightarrow> notify Print_load_failed s
           | Some codes \<Rightarrow> start_threads codes s))"

text \<open>\<^verbatim>\<open>__init__\<close> and \<^verbatim>\<open>init_ui\<close>, on a machine whose configuration file is \<open>cfg\<close>.\<close>

definition init :: "string option \<Rightarrow> state" where
  "init cfg =
     load_stocks
       \<lparr>stocks = [], config_file = cfg, auto_refresh_active = False, refresh_interval = 30000,
        auto_refresh_var = False, interval_var = ''30'', stock_input = [], tree = [],
        threads = [], timers = [], requests = [], messages = [], exports = []\<rparr>"

section \<open>Runs of the application\<close>

text \<open>
  What can happen to a running tracker: the user edits a field, presses a button or an
  arrow of the spin box, a started thread runs, or a pending timer comes due. Each
  callback and each run of \<^verbatim>\<open>fetch_stock\<close> is taken as one step.
\<close>

datatype event =
    Edit_code string
  | Press_add
  | Press_refresh
  | Click_auto_refresh
  | Edit_interval string
  | Spin "tcl_value option"
  | Press_export string string bool
  | Press_delete "string list" bool
  | Press_clear bool bool
  | Thread_runs string fetch_env
  | Timer_fires nat

fun step :: "(rat \<Rightarrow> rat option) \<Rightarrow> event \<Rightarrow> state \<Rightarrow> state" where
  "step rnd (Edit_code t) s = s\<lparr>stock_input := t\<rparr>"
| "step rnd Press_add s = add_stock s"
| "step rnd Press_refresh s = refresh_all_stocks s"
| "step rnd Click_auto_refresh s =
     toggle_auto_refresh (s\<lparr>auto_refresh_var := \<not> auto_refresh_var s\<rparr>)"
| "step rnd (Edit_interval t) s = s\<lparr>interval_var := t\<rparr>"
| "step rnd (Spin v) s = spin v s"
| "step rnd (Press_export linesep file_path ok) s = export_data linesep file_path ok s"
| "step rnd (Press_delete selected ok) s = delete_selected selected ok s"
| "step rnd (Press_clear confirmed ok) s = clear_all confirmed ok s"
| "step rnd (Thread_runs c env) s = thread_runs rnd c env s"
| "step rnd (Timer_fires i) s = timer_fires i s"

definition run :: "(rat \<Rightarrow> rat option) \<Rightarrow> event list \<Rightarrow> state \<Rightarrow> state" where
  "run rnd es s = foldl (\<lambda>s e. step rnd e s) s es"

text \<open>The record a run of \<^verbatim>\<open>fetch_stock\<close> stores, if it reaches the assignment to
  \<^verbatim>\<open>self.stocks[code]\<close>: \<open>None\<close> when the request raises, when the document has no
  rows, or when building the record raises.\<close>

definition fetched :: "(rat \<Rightarrow> rat option) \<Rightarrow> string \<Rightarrow> fetch_env \<Rightarrow> stock_info option" where
  "fetched rnd c env =
     (case response env of
        Raises e \<Rightarrow> None
      | Json p \<Rightarrow>
          (case p_data p of
             None \<Rightarrow> None
           | Some rows \<Rightarrow>
               if rows = [] then None
               else (case make_stock_info rnd c p (last rows) (now env) of
                       Inl e \<Rightarrow> None
                     | Inr stock_info \<Rightarrow> Some stock_info)))"

section \<open>Basic facts about the operations\<close>

text \<open>Definitions unfolded when a concrete input is evaluated.\<close>

lemmas text_defs =
  py_isspace_def strip_def is_dec_def py_isdigit_def isdigit_def upper_char_def upper_def
  lower_char_def remove_char_def digit_val_def nat_of_digits_def split_sign_def py_int_def
  numeric_space_def numeric_strip_def max_str_digits_def
  digit_or_us_def exponent_def scale10_def decimal_def py_float_def

lemmas format_defs =
  round_half_even_def sign_str_def digit_char_def show_nat.simps fmt_grouped_def Let_def

lemmas json_defs =
  json_dump_def json_string_def json_escape_char_def hex_char_def json_load_def json_ws_def
  scan_elems.simps cons_result_def hex_val_def hex4_def unescape_def

lemmas op_defs =
  init_def load_stocks_def run_def toggle_auto_refresh_def update_refresh_interval_def
  schedule_refresh_def refresh_all_stocks_def keys_def add_stock_def notify_def
  start_thread_def thread_runs_def timer_fires_def fetch_stock_def request_failed_def
  make_stock_info_def and_then_def item_def save_stocks_def update_table_def table_row_def
  positive_def negative_def url_def delete_selected_def clear_all_def dict_del_def
  dict_get_def fetched_def Let_def

lemmas spin_defs = spin_def limit_def format_value_def spin_from_def spin_to_def

lemma notify_fields [simp]:
  "stocks (notify m s) = stocks s"
  "threads (notify m s) = threads s"
  "timers (notify m s) = timers s"
  "requests (notify m s) = requests s"
  "config_file (notify m s) = config_file s"
  "refresh_interval (notify m s) = refresh_interval s"
  "auto_refresh_var (notify m s) = auto_refresh_var s"
  "messages (notify m s) = messages s @ [m]"
  by (simp_all add: notify_def)

lemma start_threads_fields [simp]:
  "threads (start_threads cs s) = threads s @ cs"
  "stocks (start_threads cs s) = stocks s"
  "timers (start_threads cs s) = timers s"
  "requests (start_threads cs s) = requests s"
  "config_file (start_threads cs s) = config_file s"
  "refresh_interval (start_threads cs s) = refresh_interval s"
  "auto_refresh_var (start_threads cs s) = auto_refresh_var s"
  "messages (start_threads cs s) = messages s"
  by (induction cs arbitrary: s; simp add: start_thread_def)+

lemma refresh_all_stocks_fields [simp]:
  "threads (refresh_all_stocks s) = threads s @ keys (stocks s)"
  "stocks (refresh_all_stocks s) = stocks s"
  "timers (refresh_all_stocks s) = timers s"
  "requests (refresh_all_stocks s) = requests s"
  "config_file (refresh_all_stocks s) = config_file s"
  "refresh_interval (refresh_all_stocks s) = refresh_interval s"
  "auto_refresh_var (refresh_all_stocks s) = auto_refresh_var s"
  "messages (refresh_all_stocks s) = messages s"
  by (simp_all add: refresh_all_stocks_def keys_def)

lemma schedule_refresh_fields [simp]:
  "stocks (schedule_refresh s) = stocks s"
  "timers (schedule_refresh s) =
     (if auto_refresh_var s then timers s @ [refresh_interval s] else timers s)"
  "threads (schedule_refresh s) =
     (if auto_refresh_var s then threads s @ keys (stocks s) else threads s)"
  "refresh_interval (schedule_refresh s) = refresh_interval s"
  "auto_refresh_var (schedule_refresh s) = auto_refresh_var s"
  "config_file (schedule_refresh s) = config_file s"
  "requests (schedule_refresh s) = requests s"
  "messages (schedule_refresh s) = messages s"
  by (simp_all add: schedule_refresh_def Let_def)

lemma save_stocks_fields [simp]:
  "stocks (save_stocks ok s) = stocks s"
  "threads (save_stocks ok s) = threads s"
  "timers (save_stocks ok s) = timers s"
  "requests (save_stocks ok s) = requests s"
  "refresh_interval (save_stocks ok s) = refresh_interval s"
  "auto_refresh_var (save_stocks ok s) = auto_refresh_var s"
  by (simp_all add: save_stocks_def)

lemma update_table_fields [simp]:
  "stocks (update_table s) = stocks s"
  "threads (update_table s) = threads s"
  "timers (update_table s) = timers s"
  "requests (update_table s) = requests s"
  "config_file (update_table s) = config_file s"
  "refresh_interval (update_table s) = refresh_interval s"
  "auto_refresh_var (update_table s) = auto_refresh_var s"
  "messages (update_table s) = messages s"
  by (simp_all add: update_table_def)

lemma request_failed_fields [simp]:
  "stocks (request_failed c e s) = stocks s"
  "threads (request_failed c e s) = threads s"
  "timers (request_failed c e s) = timers s"
  "config_file (request_failed c e s) = config_file s"
  "requests (request_failed c e s) = requests s"
  by (cases e; simp add: request_failed_def)+

lemma stocks_fetch_stock:
  "stocks (fetch_stock rnd c env s) =
     (case fetched rnd c env of None \<Rightarrow> stocks s | Some stock \<Rightarrow> dict_set c stock (stocks s))"
  by (simp add: fetch_stock_def fetched_def Let_def split: response.splits option.splits sum.splits)

lemma fetch_stock_fields [simp]:
  "threads (fetch_stock rnd c env s) = threads s"
  "timers (fetch_stock rnd c env s) = timers s"
  "requests (fetch_stock rnd c env s) = requests s @ [url (today env) c]"
  by (simp_all add: fetch_stock_def Let_def split: response.splits option.splits sum.splits)

lemma dict_get_dict_set:
  "dict_get (dict_set k v d) k' = (if k' = k then Some v else dict_get d k')"
  by (induction d) (auto simp: dict_get_def)

lemma keys_dict_set:
  "keys (dict_set k v d) = (if k \<in> set (keys d) then keys d else keys d @ [k])"
  by (induction d) (force simp: keys_def)+

lemma length_dict_set_present: "k \<in> set (keys d) \<Longrightarrow> length (dict_set k v d) = length d"
  by (induction d) (force simp: keys_def)+

section \<open>The refresh timer\<close>

text \<open>
  Claim C3, as amended. Changing the interval while auto-refresh is on starts one refresh
  and arms one more timer, at the new interval; the timers armed before stay pending,
  since nothing cancels them. A pending timer that comes due while auto-refresh is on
  arms its successor, so the number of pending timers does not go down: it grows by one
  with every change of the interval.
\<close>

theorem interval_change_arms_another_timer:
  "(py_int (interval_var s) = Inr n \<and> auto_refresh_var s \<longrightarrow>
      timers (update_refresh_interval s) = timers s @ [n * 1000] \<and>
      threads (update_refresh_interval s) = threads s @ keys (stocks s)) \<and>
   (i < length (timers s) \<and> auto_refresh_var s \<longrightarrow>
      length (timers (timer_fires i s)) = length (timers s))"
  by (auto simp: update_refresh_interval_def timer_fires_def Let_def)

text \<open>An instance: auto-refresh is on with one timer pending and the spin box reports 60.\<close>

theorem interval_change_arms_another_timer_witness:
  "timers (update_refresh_interval (run Some [Click_auto_refresh, Edit_interval ''60''] (init None)))
     = [30000, 60000] \<and>
   length (timers (timer_fires 0 (run Some [Click_auto_refresh, Edit_interval ''60''] (init None))))
     = 1"
proof -
  let ?s = "run Some [Click_auto_refresh, Edit_interval ''60''] (init None)"
  have iv: "py_int (interval_var ?s) = Inr 60"
    by (simp add: op_defs text_defs)
  have on: "auto_refresh_var ?s" "timers ?s = [30000]"
    by (simp_all add: op_defs)
  from interval_change_arms_another_timer [of ?s 60 0] iv on
  show ?thesis by simp
qed

text \<open>The claim as stated fails: auto-refresh is switched on, 9 is typed into the spin box
  and the up arrow is pressed. Two timers are pending, the one armed at 30000 and the one
  armed at 10000.\<close>

theorem two_timers_pending_after_interval_change:
  "timers (run Some [Click_auto_refresh, Edit_interval ''9'', Spin (Some (Number 10))] (init None))
     = [30000, 10000]"
  by (simp add: op_defs text_defs spin_defs format_defs)

section \<open>Example data\<close>

text \<open>One answer of the exchange, with the row layout of its daily report: date, volume,
  turnover, open, high, low, close, change, transactions; and the record built from it.\<close>

definition example_row :: "string list" where
  "example_row =
     [''115/11/04'', ''12,345,678'', ''7,160,493,240'', ''575.00'', ''582.00'', ''574.00'',
      ''580.00'', ''+5.50'', ''9,999'']"

definition example_env :: fetch_env where
  "example_env =
     \<lparr>today = ''20261104'',
      response = Json \<lparr>p_name = None, p_data = Some [example_row]\<rparr>,
      now = ''2026-11-04 13:30:00'', disk_ok = True\<rparr>"

definition example_info :: "string \<Rightarrow> stock_info" where
  "example_info c =
     \<lparr>code = c, name = c, price = Finite False 580, change = Finite False (11 / 2),
      volume = 12345678, open' = Finite False 575, high = Finite False 582,
      low = Finite False 574, timestamp = ''2026-11-04 13:30:00''\<rparr>"

lemmas example_defs = example_row_def example_env_def example_info_def

lemma fetched_example: "fetched Some c example_env = Some (example_info c)"
  by (simp add: fetched_def example_defs make_stock_info_def and_then_def item_def text_defs)

text \<open>A row of a share that trades above one thousand: the exchange writes its prices
  with grouping separators, as it writes the volume.\<close>

definition comma_row :: "string list" where
  "comma_row =
     [''115/11/04'', ''1,234,567'', ''2,857,000,000'', ''2,300.00'', ''2,330.00'', ''2,295.00'',
      ''2,315.00'', ''+15.00'', ''1,234'']"

definition comma_env :: fetch_env where
  "comma_env =
     \<lparr>today = ''20261104'',
      response = Json \<lparr>p_name = None, p_data = Some [comma_row]\<rparr>,
      now = ''2026-11-04 13:30:00'', disk_ok = True\<rparr>"

section \<open>Parsing the exchange's rows\<close>

text \<open>
  Claim C2 does not hold of the code. \<^verbatim>\<open>fetch_stock\<close> strips the grouping separators
  of the volume only (\<^verbatim>\<open>latest[1].replace(',', '')\<close>); the price, change, open, high and
  low fields go to \<^verbatim>\<open>float\<close> as they are. On a row whose closing price is
  \<^verbatim>\<open>2,315.00\<close> the volume \<^verbatim>\<open>1,234,567\<close> is read as 1234567, but \<^verbatim>\<open>float\<close> raises
  on the price: nothing is stored and the error box is shown.
\<close>

theorem price_with_separator_is_refused:
  "py_int (remove_char (CHR '','') (comma_row ! 1)) = Inr 1234567 \<and>
   py_float rnd (comma_row ! 6) = Inl (ValueError_float ''2,315.00'') \<and>
   fetched rnd ''3008'' comma_env = None \<and>
   stocks (fetch_stock rnd ''3008'' comma_env s) = stocks s \<and>
   messages (fetch_stock rnd ''3008'' comma_env s) =
     messages s @ [Error_build (ValueError_float ''2,315.00'')]"
  by (simp add: comma_row_def comma_env_def fetched_def fetch_stock_def make_stock_info_def
      and_then_def item_def text_defs)

section \<open>The configuration file read back\<close>

text \<open>The decoder inverts the encoder, on every string and on every list of strings.\<close>

lemma hex_val_hex_digit: "\<forall>m \<in> set [0..<16]. hex_val (''0123456789abcdef'' ! m) = Some m"
  by code_simp

lemma hex_val_hex_char: "hex_val (hex_char k) = Some (k mod 16)"
proof -
  have "k mod 16 \<in> set [0..<16]" by simp
  with hex_val_hex_digit show ?thesis unfolding hex_char_def by blast
qed

lemma hex4_escape: "hex4 (CHR ''0'') (CHR ''0'') (hex_char (n div 16)) (hex_char n) = Some (n mod 256)"
proof -
  have z: "hex_val (CHR ''0'') = Some 0" by (simp add: hex_val_def)
  have "n mod (16 * 16) = 16 * (n div 16 mod 16) + n mod 16"
    by (rule mod_mult2_eq)
  then show ?thesis by (simp add: hex4_def z hex_val_hex_char)
qed

lemma char_of_code: "of_char c = (n::nat) \<Longrightarrow> c = char_of n"
  by auto

lemma ctl_codes:
  "char_of (8::nat) = CHR 0x08" "char_of (9::nat) = CHR 0x09" "char_of (10::nat) = CHR 0x0A"
  "char_of (12::nat) = CHR 0x0C" "char_of (13::nat) = CHR 0x0D"
  by code_simp+

lemma ctl_chars:
  "of_char c = (8::nat) \<Longrightarrow> c = CHR 0x08"
  "of_char c = (9::nat) \<Longrightarrow> c = CHR 0x09"
  "of_char c = (10::nat) \<Longrightarrow> c = CHR 0x0A"
  "of_char c = (12::nat) \<Longrightarrow> c = CHR 0x0C"
  "of_char c = (13::nat) \<Longrightarrow> c = CHR 0x0D"
  using char_of_code [of c] ctl_codes by simp_all

lemma esc_dq: "scan_string (json_escape_char dquote @ t) = cons_result dquote (scan_string t)"
  by (simp add: json_escape_char_def unescape_def)

lemma esc_bs: "scan_string (json_escape_char backslash @ t) = cons_result backslash (scan_string t)"
  by (simp add: json_escape_char_def unescape_def)

lemma esc_ctl:
  assumes "of_char c \<in> {8, 9, 10, 12, 13 :: nat}"
  shows "scan_string (json_escape_char c @ t) = cons_result c (scan_string t)"
proof -
  from assms have "c \<in> {CHR 0x08, CHR 0x09, CHR 0x0A, CHR 0x0C, CHR 0x0D}"
    using ctl_chars [of c] by auto
  then show ?thesis
    by (auto simp: json_escape_char_def unescape_def)
qed

lemma esc_plain:
  assumes "c \<noteq> dquote" "c \<noteq> backslash" "32 \<le> (of_char c :: nat)" "(of_char c :: nat) \<le> 126"
  shows "scan_string (json_escape_char c @ t) = cons_result c (scan_string t)"
  using assms by (simp add: json_escape_char_def)

lemma esc_hex:
  assumes "c \<noteq> dquote" "c \<noteq> backslash" "of_char c \<notin> {8, 9, 10, 12, 13 :: nat}"
    "\<not> (32 \<le> (of_char c :: nat) \<and> (of_char c :: nat) \<le> 126)"
  shows "scan_string (json_escape_char c @ t) = cons_result c (scan_string t)"
proof -
  have e: "json_escape_char c =
      [backslash, CHR ''u'', CHR ''0'', CHR ''0'', hex_char (of_char c div 16), hex_char (of_char c)]"
    using assms by (simp add: json_escape_char_def Let_def)
  have c: "char_of (of_char c mod 256 :: nat) = c" by simp
  have lt: "(of_char c mod 256 :: nat) < 256" by simp
  show ?thesis
    unfolding e by (simp add: hex4_escape c lt del: mod_less)
qed

lemma scan_string_escape:
  "scan_string (json_escape_char c @ t) = cons_result c (scan_string t)"
  using esc_dq esc_bs esc_ctl [of c] esc_plain [of c] esc_hex [of c] by blast

lemma scan_string_json:
  "scan_string (concat (map json_escape_char s) @ dquote # rest) = Some (s, rest)"
  by (induction s) (simp_all add: scan_string_escape cons_result_def)


lemma join_Cons: "join sep (x # xs) = x @ (if xs = [] then [] else sep @ join sep xs)"
  by (cases xs) simp_all

lemma not_ws [simp]: "\<not> json_ws dquote" "\<not> json_ws (CHR '']'')" "\<not> json_ws (CHR '','')"
  "\<not> json_ws (CHR ''['')" "json_ws (CHR '' '')"
  by (simp_all add: json_ws_def)

lemma scan_elems_json_string:
  "scan_elems (json_string x @ t) =
     (case dropWhile json_ws t of
        [] \<Rightarrow> None
      | d # r2 \<Rightarrow>
          if d = CHR '']'' then (if dropWhile json_ws r2 = [] then Some [x] else None)
          else if d = CHR '','' then map_option (Cons x) (scan_elems (dropWhile json_ws r2))
          else None)"
  by (subst scan_elems.simps) (simp add: json_string_def scan_string_json)

lemma dropWhile_ws_json_strings:
  "xs \<noteq> [] \<Longrightarrow> dropWhile json_ws (join sep (map json_string xs) @ t) = join sep (map json_string xs) @ t"
  by (cases xs) (simp_all add: join_Cons json_string_def)

lemma scan_elems_json:
  "codes \<noteq> [] \<Longrightarrow> scan_elems (join '', '' (map json_string codes) @ '']'') = Some codes"
proof (induction codes rule: list_nonempty_induct)
  case (single x)
  show ?case by (simp add: scan_elems_json_string)
next
  case (cons x xs)
  have "join '', '' (map json_string (x # xs)) @ '']'' =
        json_string x @ CHR '','' # CHR '' '' # (join '', '' (map json_string xs) @ '']'')"
    using cons.hyps by (simp add: join_Cons)
  then show ?case
    using cons.hyps cons.IH by (simp add: scan_elems_json_string dropWhile_ws_json_strings)
qed

lemma json_load_json_dump: "json_load (json_dump codes) = Some codes"
proof (cases "codes = []")
  case True
  then show ?thesis by (simp add: json_load_def json_dump_def)
next
  case False
  have "json_load (CHR ''['' # (join '', '' (map json_string codes) @ '']'')) =
        scan_elems (join '', '' (map json_string codes) @ '']'')"
  proof -
    obtain d r where dr: "join '', '' (map json_string codes) @ '']'' = d # r" "d = dquote"
      using False by (cases codes) (auto simp: join_Cons json_string_def)
    show ?thesis unfolding dr(1) by (simp add: json_load_def dr(2))
  qed
  with False show ?thesis by (simp add: json_dump_def scan_elems_json)
qed

text \<open>
  Claim C7. Reading back what \<^verbatim>\<open>json.dump\<close> wrote gives the list that was written, for
  every list of codes (of any length, well-formed or not); and a session that starts on the
  file saved by another starts one fetch per saved code, in the order of the saved
  dictionary.
\<close>

theorem save_then_load_round_trip:
  "json_load (json_dump codes) = Some codes \<and>
   threads (init (config_file (save_stocks True s))) = keys (stocks s)"
  by (simp add: json_load_json_dump init_def load_stocks_def save_stocks_def)

text \<open>
  Claim C10. \<^verbatim>\<open>load_stocks\<close> starts a fetch for every string of the file, as stored:
  it applies neither the four-digit check nor the duplicate check of \<^verbatim>\<open>add_stock\<close>.
  When the exchange answers such a fetch with data, the string becomes a tracked code.
\<close>

theorem load_stocks_fetches_every_stored_string:
  assumes "json_load text = Some codes"
  shows "threads (init (Some text)) = codes \<and>
         (\<forall>c env stock. c \<in> set codes \<and> fetched rnd c env = Some stock \<longrightarrow>
            dict_get (stocks (thread_runs rnd c env (init (Some text)))) c = Some stock)"
  using assms
  by (simp add: init_def load_stocks_def thread_runs_def stocks_fetch_stock dict_get_def)

text \<open>An instance: the file holds \<^verbatim>\<open>["ABC", "ABC"]\<close>. Two fetches of \<^verbatim>\<open>ABC\<close> are
  started, and the first answer with data makes \<^verbatim>\<open>ABC\<close> a tracked code.\<close>

definition stored_abc :: string where
  "stored_abc = CHR ''['' # dquote # ''ABC'' @ dquote # '', '' @ dquote # ''ABC'' @ [dquote, CHR '']'']"

theorem load_stocks_fetches_every_stored_string_witness:
  "json_load stored_abc = Some [''ABC'', ''ABC''] \<and>
   \<not> isdigit ''ABC'' \<and>
   threads (init (Some stored_abc)) = [''ABC'', ''ABC''] \<and>
   dict_get (stocks (thread_runs Some ''ABC'' example_env (init (Some stored_abc)))) ''ABC''
     = Some (example_info ''ABC'')"
proof -
  have l: "json_load stored_abc = Some [''ABC'', ''ABC'']"
    by (simp add: stored_abc_def json_defs)
  have d: "\<not> isdigit ''ABC''"
    by (simp add: text_defs)
  from load_stocks_fetches_every_stored_string [OF l, of Some] fetched_example [of "''ABC''"] l d
  show ?thesis by simp
qed

section \<open>Adding a code that is already tracked\<close>

text \<open>
  Claim C5. When the text of the entry, stripped and upper-cased, is a tracked code,
  \<^verbatim>\<open>add_stock\<close> starts no thread, so no request is made, and it changes neither the
  dictionary nor the configuration file. When the code has four digits, as every code that
  \<^verbatim>\<open>add_stock\<close> itself lets through has, all it does is show the duplicate warning.
\<close>

theorem add_stock_rejects_tracked_code:
  assumes "c = upper (strip (stock_input s))" and "c \<in> set (keys (stocks s))"
  shows "stocks (add_stock s) = stocks s \<and> threads (add_stock s) = threads s \<and>
         requests (add_stock s) = requests s \<and> config_file (add_stock s) = config_file s \<and>
         (isdigit c \<and> length c = 4 \<longrightarrow> add_stock s = notify (Warning_duplicate c) s)"
  using assms by (auto simp: add_stock_def Let_def)

text \<open>An instance: 2330 is added and fetched, then added again with spaces around it.\<close>

theorem add_stock_rejects_tracked_code_witness:
  "messages (add_stock (run Some [Edit_code ''2330'', Press_add, Thread_runs ''2330'' example_env,
                                  Edit_code '' 2330 ''] (init None)))
     = [Warning_duplicate ''2330''] \<and>
   threads (add_stock (run Some [Edit_code ''2330'', Press_add, Thread_runs ''2330'' example_env,
                                  Edit_code '' 2330 ''] (init None))) = [] \<and>
   requests (add_stock (run Some [Edit_code ''2330'', Press_add, Thread_runs ''2330'' example_env,
                                  Edit_code '' 2330 ''] (init None)))
     = [url ''20261104'' ''2330'']"
proof -
  let ?s = "run Some [Edit_code ''2330'', Press_add, Thread_runs ''2330'' example_env,
                      Edit_code '' 2330 ''] (init None)"
  have c: "''2330'' = upper (strip (stock_input ?s))"
    by (simp add: run_def text_defs)
  have st: "stocks ?s = [(''2330'', example_info ''2330'')]" "threads ?s = []" "messages ?s = []"
      "requests ?s = [url ''20261104'' ''2330'']"
    by (simp_all add: op_defs text_defs example_defs)
  have v: "isdigit ''2330'' \<and> length ''2330'' = 4"
    by (simp add: text_defs)
  from add_stock_rejects_tracked_code [OF c] st v
  show ?thesis by (simp add: keys_def)
qed

section \<open>Fetches and the dictionary of tracked codes\<close>

text \<open>The runs of a list of started threads, each with what it reads from its
  environment, as events; and what one such run leaves under its code.\<close>

definition thread_events :: "(string \<times> fetch_env) list \<Rightarrow> event list" where
  "thread_events rs = map (\<lambda>r. Thread_runs (fst r) (snd r)) rs"

definition outcome :: "(rat \<Rightarrow> rat option) \<Rightarrow> stock_info dict \<Rightarrow> string \<times> fetch_env \<Rightarrow> stock_info option" where
  "outcome rnd d r =
     (case fetched rnd (fst r) (snd r) of None \<Rightarrow> dict_get d (fst r) | Some stock \<Rightarrow> Some stock)"

lemma run_Nil [simp]: "run rnd [] s = s"
  by (simp add: run_def)

lemma run_Cons [simp]: "run rnd (e # es) s = run rnd es (step rnd e s)"
  by (simp add: run_def)

lemma run_append: "run rnd (es @ es') s = run rnd es' (run rnd es s)"
  by (simp add: run_def)

lemma run_snoc [simp]: "run rnd (es @ [e]) s = step rnd e (run rnd es s)"
  by (simp add: run_def)

lemma stocks_add_stock [simp]: "stocks (add_stock s) = stocks s"
  by (simp add: add_stock_def Let_def start_thread_def)

lemma stocks_toggle_auto_refresh [simp]: "stocks (toggle_auto_refresh s) = stocks s"
  by (simp add: toggle_auto_refresh_def)

lemma stocks_update_refresh_interval [simp]: "stocks (update_refresh_interval s) = stocks s"
  by (simp add: update_refresh_interval_def Let_def split: sum.splits)

lemma stocks_spin [simp]: "stocks (spin v s) = stocks s"
  by (simp add: spin_def)

lemma stocks_export_data [simp]: "stocks (export_data linesep file_path ok s) = stocks s"
  by (simp add: export_data_def)

lemma stocks_timer_fires [simp]: "stocks (timer_fires i s) = stocks s"
  by (simp add: timer_fires_def)

lemma stocks_load_stocks [simp]: "stocks (load_stocks s) = stocks s"
  by (simp add: load_stocks_def split: option.splits)

lemma stocks_init [simp]: "stocks (init cfg) = []"
  by (simp add: init_def)

lemma dict_get_dict_del_eq:
  "dict_get (dict_del k d) c = (if c = k then None else dict_get d c)"
  by (induction d) (auto simp: dict_get_def dict_del_def)

lemma dict_get_dict_del:
  "dict_get (dict_del k d) c = Some v \<Longrightarrow> dict_get d c = Some v"
  by (simp add: dict_get_dict_del_eq split: if_splits)

lemma dict_get_foldl_dict_del:
  "dict_get (foldl (\<lambda>d c. dict_del c d) d ks) c = Some v \<Longrightarrow> dict_get d c = Some v"
  by (induction ks arbitrary: d) (auto dest: dict_get_dict_del)

lemma stocks_thread_runs:
  "stocks (thread_runs rnd c env s) =
     (if c \<in> set (threads s)
      then (case fetched rnd c env of None \<Rightarrow> stocks s | Some stock \<Rightarrow> dict_set c stock (stocks s))
      else stocks s)"
  by (simp add: thread_runs_def stocks_fetch_stock split: option.splits)

lemma threads_thread_runs:
  "threads (thread_runs rnd c env s) = remove1 c (threads s)"
  by (simp add: thread_runs_def remove1_idem)

lemma keys_thread_runs:
  "c \<in> set (keys (stocks s)) \<Longrightarrow> keys (stocks (thread_runs rnd c env s)) = keys (stocks s)"
  by (simp add: stocks_thread_runs keys_dict_set split: option.splits)

text \<open>
  Threads started for tracked codes, one per code, run in any order: the keys and their
  order stay, the threads leave the pool, and every code holds what its own fetch left.
\<close>

lemma run_started_threads:
  assumes "distinct (map fst rs)" and "set (map fst rs) \<subseteq> set (keys (stocks s))"
    and "mset (map fst rs) \<subseteq># mset (threads s)"
  shows "keys (stocks (run rnd (thread_events rs) s)) = keys (stocks s) \<and>
         mset (threads (run rnd (thread_events rs) s)) = mset (threads s) - mset (map fst rs) \<and>
         (\<forall>k. dict_get (stocks (run rnd (thread_events rs) s)) k =
               (case map_of rs k of
                  None \<Rightarrow> dict_get (stocks s) k
                | Some env \<Rightarrow> outcome rnd (stocks s) (k, env)))"
  using assms
proof (induction rs arbitrary: s)
  case Nil
  then show ?case by (simp add: thread_events_def)
next
  case (Cons r rs)
  obtain c env where r: "r = (c, env)" by (cases r)
  let ?s1 = "thread_runs rnd c env s"
  from Cons.prems r have c_in: "c \<in> set (threads s)" "c \<in> set (keys (stocks s))"
    and c_notin: "c \<notin> set (map fst rs)"
    by (auto dest: mset_subset_eqD)
  have k1: "keys (stocks ?s1) = keys (stocks s)"
    using c_in by (simp add: keys_thread_runs)
  have t1: "mset (threads ?s1) = mset (threads s) - {#c#}"
    by (simp add: threads_thread_runs)
  have sub: "mset (map fst rs) \<subseteq># mset (threads ?s1)"
  proof -
    from Cons.prems(3) r have "add_mset c (mset (map fst rs)) \<subseteq># mset (threads s)" by simp
    then show ?thesis by (simp add: t1 insert_subset_eq_iff)
  qed
  have IH: "keys (stocks (run rnd (thread_events rs) ?s1)) = keys (stocks ?s1) \<and>
         mset (threads (run rnd (thread_events rs) ?s1)) = mset (threads ?s1) - mset (map fst rs) \<and>
         (\<forall>k. dict_get (stocks (run rnd (thread_events rs) ?s1)) k =
               (case map_of rs k of
                  None \<Rightarrow> dict_get (stocks ?s1) k
                | Some env \<Rightarrow> outcome rnd (stocks ?s1) (k, env)))"
    using Cons.prems k1 sub by (intro Cons.IH) auto
  have g1: "dict_get (stocks ?s1) k =
      (if k = c then outcome rnd (stocks s) (c, env) else dict_get (stocks s) k)" for k
    using c_in by (simp add: stocks_thread_runs outcome_def dict_get_dict_set split: option.splits)
  have ev: "run rnd (thread_events (r # rs)) s = run rnd (thread_events rs) ?s1"
    by (simp add: thread_events_def r)
  have "dict_get (stocks (run rnd (thread_events rs) ?s1)) k =
          (case map_of (r # rs) k of
             None \<Rightarrow> dict_get (stocks s) k
           | Some env \<Rightarrow> outcome rnd (stocks s) (k, env))" for k
  proof (cases "k = c")
    case True
    with c_notin have "map_of rs k = None"
      by (simp add: map_of_eq_None_iff)
    with IH g1 True r show ?thesis by simp
  next
    case False
    with IH g1 r show ?thesis
      by (simp add: outcome_def split: option.splits)
  qed
  with IH k1 t1 r show ?case
    unfolding ev by simp
qed

text \<open>
  Claim C1. A fetch that stores nothing (the request raises, the document has no rows, or
  building the record raises) leaves \<^verbatim>\<open>self.stocks\<close> as it was. And when
  \<^verbatim>\<open>refresh_all_stocks\<close> has started one thread per tracked code and all of them have
  run, in any order \<open>rs\<close>: the keys and their order are the same, so the number of entries
  is; every code whose fetch failed holds the record it held, every other code holds the
  record fetched; and the number of entries replaced is the number of entries less the
  number of failures.
\<close>

theorem failed_fetch_leaves_entries_unchanged:
  "(fetched rnd c env = None \<longrightarrow> stocks (fetch_stock rnd c env s) = stocks s) \<and>
   (distinct (keys (stocks s)) \<and> mset (map fst rs) = mset (keys (stocks s)) \<longrightarrow>
      keys (stocks (run rnd (thread_events rs) (refresh_all_stocks s))) = keys (stocks s) \<and>
      mset (threads (run rnd (thread_events rs) (refresh_all_stocks s))) = mset (threads s) \<and>
      (\<forall>r \<in> set rs.
         dict_get (stocks (run rnd (thread_events rs) (refresh_all_stocks s))) (fst r) =
           (case fetched rnd (fst r) (snd r) of
              None \<Rightarrow> dict_get (stocks s) (fst r)
            | Some stock \<Rightarrow> Some stock)) \<and>
      length (filter (\<lambda>r. fetched rnd (fst r) (snd r) \<noteq> None) rs) =
        length (stocks s) - length (filter (\<lambda>r. fetched rnd (fst r) (snd r) = None) rs))"
proof (intro conjI impI)
  assume "fetched rnd c env = None"
  then show "stocks (fetch_stock rnd c env s) = stocks s"
    by (simp add: stocks_fetch_stock)
next
  let ?s0 = "refresh_all_stocks s"
  let ?s' = "run rnd (thread_events rs) ?s0"
  assume "distinct (keys (stocks s)) \<and> mset (map fst rs) = mset (keys (stocks s))"
  then have d: "distinct (keys (stocks s))" and m: "mset (map fst rs) = mset (keys (stocks s))"
    by simp_all
  from d m have drs: "distinct (map fst rs)"
    by (metis mset_eq_imp_distinct_iff)
  from m have srs: "set (map fst rs) = set (keys (stocks s))"
    by (rule mset_eq_setD)
  have sub: "mset (map fst rs) \<subseteq># mset (threads ?s0)"
    unfolding m by simp
  have st0: "stocks ?s0 = stocks s" by simp
  have inc: "set (map fst rs) \<subseteq> set (keys (stocks ?s0))"
    unfolding st0 srs by simp
  from drs inc sub have R:
    "keys (stocks ?s') = keys (stocks ?s0) \<and>
     mset (threads ?s') = mset (threads ?s0) - mset (map fst rs) \<and>
     (\<forall>k. dict_get (stocks ?s') k =
           (case map_of rs k of
              None \<Rightarrow> dict_get (stocks ?s0) k
            | Some env \<Rightarrow> outcome rnd (stocks ?s0) (k, env)))"
    by (rule run_started_threads)
  from R have k: "keys (stocks ?s') = keys (stocks s)"
    unfolding st0 by (rule conjunct1)
  from R have t: "mset (threads ?s') = mset (threads ?s0) - mset (map fst rs)"
    by (elim conjE)
  from R have g: "dict_get (stocks ?s') k =
               (case map_of rs k of
                  None \<Rightarrow> dict_get (stocks s) k
                | Some env \<Rightarrow> outcome rnd (stocks s) (k, env))" for k
    unfolding st0 by (elim conjE allE)
  show "keys (stocks ?s') = keys (stocks s)" by (rule k)
  show "mset (threads ?s') = mset (threads s)"
    unfolding t m by simp
  show "\<forall>r \<in> set rs. dict_get (stocks ?s') (fst r) =
           (case fetched rnd (fst r) (snd r) of
              None \<Rightarrow> dict_get (stocks s) (fst r)
            | Some stock \<Rightarrow> Some stock)"
  proof
    fix r assume "r \<in> set rs"
    with drs have "map_of rs (fst r) = Some (snd r)"
      by (cases r) simp
    then show "dict_get (stocks ?s') (fst r) =
           (case fetched rnd (fst r) (snd r) of
              None \<Rightarrow> dict_get (stocks s) (fst r)
            | Some stock \<Rightarrow> Some stock)"
      by (simp add: g outcome_def)
  qed
  have "length rs = length (stocks s)"
    using m by (metis length_map size_mset keys_def)
  moreover have "length (filter (\<lambda>r. fetched rnd (fst r) (snd r) \<noteq> None) rs) +
      length (filter (\<lambda>r. \<not> fetched rnd (fst r) (snd r) \<noteq> None) rs) = length rs"
    by (rule sum_length_filter_compl)
  ultimately show "length (filter (\<lambda>r. fetched rnd (fst r) (snd r) \<noteq> None) rs) =
        length (stocks s) - length (filter (\<lambda>r. fetched rnd (fst r) (snd r) = None) rs)"
    by simp
qed

text \<open>An instance: two tracked codes; the fetch of one times out, the fetch of the other
  succeeds a minute later.\<close>

definition timeout_env :: fetch_env where
  "timeout_env = example_env\<lparr>response := Raises Timeout\<rparr>"

definition later_env :: fetch_env where
  "later_env = example_env\<lparr>now := ''2026-11-04 13:31:00''\<rparr>"

definition two_tracked :: state where
  "two_tracked =
     run Some [Edit_code ''2330'', Press_add, Thread_runs ''2330'' example_env,
               Edit_code ''0050'', Press_add, Thread_runs ''0050'' example_env] (init None)"

lemma stocks_two_tracked:
  "stocks two_tracked = [(''2330'', example_info ''2330''), (''0050'', example_info ''0050'')]"
  by (simp add: two_tracked_def op_defs text_defs example_defs)

lemma fetched_timeout: "fetched rnd c timeout_env = None"
  by (simp add: fetched_def timeout_env_def)

lemma fetched_later:
  "fetched Some c later_env = Some ((example_info c)\<lparr>timestamp := ''2026-11-04 13:31:00''\<rparr>)"
  by (simp add: fetched_def later_env_def example_defs make_stock_info_def and_then_def item_def
      text_defs)

theorem failed_fetch_leaves_entries_unchanged_witness:
  "stocks (fetch_stock Some ''0050'' timeout_env two_tracked) = stocks two_tracked \<and>
   keys (stocks (run Some (thread_events [(''0050'', timeout_env), (''2330'', later_env)])
                   (refresh_all_stocks two_tracked))) = [''2330'', ''0050''] \<and>
   dict_get (stocks (run Some (thread_events [(''0050'', timeout_env), (''2330'', later_env)])
                       (refresh_all_stocks two_tracked))) ''0050'' = Some (example_info ''0050'') \<and>
   dict_get (stocks (run Some (thread_events [(''0050'', timeout_env), (''2330'', later_env)])
                       (refresh_all_stocks two_tracked))) ''2330''
     = Some ((example_info ''2330'')\<lparr>timestamp := ''2026-11-04 13:31:00''\<rparr>)"
  using failed_fetch_leaves_entries_unchanged
          [of Some "''0050''" timeout_env two_tracked
              "[(''0050'', timeout_env), (''2330'', later_env)]"]
  by (simp add: stocks_two_tracked fetched_timeout fetched_later keys_def dict_get_def)

text \<open>A step stores a record under a code only by running a fetch of that code that succeeds.\<close>

lemma step_stores:
  assumes "dict_get (stocks (step rnd e s)) c = Some stock"
  shows "dict_get (stocks s) c = Some stock \<or>
         (\<exists>env. e = Thread_runs c env \<and> c \<in> set (threads s) \<and> fetched rnd c env = Some stock)"
proof (cases e)
  case (Press_delete selected ok)
  with assms show ?thesis
    by (auto simp: delete_selected_def dest: dict_get_foldl_dict_del split: if_splits)
next
  case (Press_clear confirmed ok)
  with assms show ?thesis
    by (auto simp: clear_all_def dict_get_def split: if_splits)
next
  case (Thread_runs c' env)
  with assms show ?thesis
    by (auto simp: stocks_thread_runs dict_get_dict_set split: if_splits option.splits)
qed (use assms in simp_all)

lemma dict_get_keys: "c \<in> set (keys d) \<longleftrightarrow> (\<exists>v. dict_get d c = Some v)"
  by (induction d) (auto simp: keys_def dict_get_def)

lemma run_stores:
  "dict_get (stocks (run rnd es (init cfg))) c = Some stock \<Longrightarrow>
     \<exists>env. Thread_runs c env \<in> set es \<and> fetched rnd c env = Some stock"
proof (induction es arbitrary: stock rule: rev_induct)
  case Nil
  then show ?case by (simp add: dict_get_def)
next
  case (snoc e es)
  from snoc.prems have "dict_get (stocks (step rnd e (run rnd es (init cfg)))) c = Some stock"
    by simp
  then consider "dict_get (stocks (run rnd es (init cfg))) c = Some stock"
    | env where "e = Thread_runs c env" "fetched rnd c env = Some stock"
    by (auto dest: step_stores)
  then show ?case
  proof cases
    case 1
    with snoc.IH show ?thesis by auto
  next
    case 2
    then show ?thesis by auto
  qed
qed

lemma make_stock_info_code:
  "make_stock_info rnd c p latest ts = Inr stock \<Longrightarrow> code stock = c"
  by (auto simp: make_stock_info_def and_then_def split: sum.splits)

lemma fetched_code: "fetched rnd c env = Some stock \<Longrightarrow> code stock = c"
  by (auto simp: fetched_def dest: make_stock_info_code
      split: response.splits option.splits if_splits sum.splits)

text \<open>
  Claim C6. \<^verbatim>\<open>add_stock\<close> never changes the dictionary. A step puts a code that was
  absent into the dictionary only if the step is the run of a fetch thread for that code
  and the fetch succeeds. So in every state the application reaches, every tracked code
  holds a record that a successful fetch of that code has built, with that code in its
  \<^verbatim>\<open>code\<close> field.
\<close>

theorem code_enters_store_by_successful_fetch_only:
  "stocks (add_stock s) = stocks s \<and>
   (c \<notin> set (keys (stocks s)) \<and> c \<in> set (keys (stocks (step rnd e s))) \<longrightarrow>
      (\<exists>env. e = Thread_runs c env \<and> c \<in> set (threads s) \<and> fetched rnd c env \<noteq> None)) \<and>
   (c \<in> set (keys (stocks (run rnd es (init cfg)))) \<longrightarrow>
      (\<exists>env stock. Thread_runs c env \<in> set es \<and> fetched rnd c env = Some stock \<and>
         code stock = c \<and>
         dict_get (stocks (run rnd es (init cfg))) c = Some stock))"
proof (intro conjI impI)
  show "stocks (add_stock s) = stocks s" by simp
next
  assume "c \<notin> set (keys (stocks s)) \<and> c \<in> set (keys (stocks (step rnd e s)))"
  then obtain stock where "dict_get (stocks s) c = None"
      "dict_get (stocks (step rnd e s)) c = Some stock"
    by (auto simp: dict_get_keys)
  with step_stores [of rnd e s c stock]
  show "\<exists>env. e = Thread_runs c env \<and> c \<in> set (threads s) \<and> fetched rnd c env \<noteq> None"
    by auto
next
  assume "c \<in> set (keys (stocks (run rnd es (init cfg))))"
  then obtain stock where g: "dict_get (stocks (run rnd es (init cfg))) c = Some stock"
    by (auto simp: dict_get_keys)
  from run_stores [OF g] obtain env where
    "Thread_runs c env \<in> set es" "fetched rnd c env = Some stock"
    by blast
  with g fetched_code [of rnd c env stock]
  show "\<exists>env stock. Thread_runs c env \<in> set es \<and> fetched rnd c env = Some stock \<and>
         code stock = c \<and>
         dict_get (stocks (run rnd es (init cfg))) c = Some stock"
    by blast
qed

text \<open>An instance: after the add request 2330 is absent and its thread is pending; the run
  of the thread puts it in.\<close>

theorem code_enters_store_by_successful_fetch_only_witness:
  "threads (run Some [Edit_code ''2330'', Press_add] (init None)) = [''2330''] \<and>
   ''2330'' \<notin> set (keys (stocks (run Some [Edit_code ''2330'', Press_add] (init None)))) \<and>
   ''2330'' \<in> set (keys (stocks
      (step Some (Thread_runs ''2330'' example_env)
         (run Some [Edit_code ''2330'', Press_add] (init None))))) \<and>
   (\<exists>env. Thread_runs ''2330'' example_env = Thread_runs ''2330'' env \<and>
           fetched Some ''2330'' env \<noteq> None) \<and>
   (\<exists>env stock.
      Thread_runs ''2330'' env \<in> set [Edit_code ''2330'', Press_add, Thread_runs ''2330'' example_env] \<and>
      fetched Some ''2330'' env = Some stock \<and>
      code stock = ''2330'' \<and>
      dict_get (stocks (run Some [Edit_code ''2330'', Press_add, Thread_runs ''2330'' example_env]
                          (init None))) ''2330'' = Some stock)"
proof -
  let ?s = "run Some [Edit_code ''2330'', Press_add] (init None)"
  let ?es = "[Edit_code ''2330'', Press_add, Thread_runs ''2330'' example_env]"
  have a: "threads ?s = [''2330'']" "stocks ?s = []"
    by (simp_all add: op_defs text_defs)
  have b: "stocks (step Some (Thread_runs ''2330'' example_env) ?s) = [(''2330'', example_info ''2330'')]"
    by (simp add: op_defs text_defs example_defs)
  have c: "stocks (run Some ?es (init None)) = [(''2330'', example_info ''2330'')]"
    by (simp add: op_defs text_defs example_defs)
  from code_enters_store_by_successful_fetch_only
         [of ?s "''2330''" Some "Thread_runs ''2330'' example_env" ?es None] a b c
  show ?thesis by (simp add: keys_def)
qed

section \<open>The exported file\<close>

text \<open>
  The shapes the export promises, as predicates on text: an unsigned number with exactly
  two decimals; the same with an optional minus sign; the same with a mandatory sign; and
  digits in groups of three separated by commas, counted from the right, with an optional
  minus sign. \<open>split_on\<close> is \<^verbatim>\<open>str.split\<close> with a one-character separator.
\<close>

definition is_finite :: "pyfloat \<Rightarrow> bool" where
  "is_finite x = (case x of Finite neg m \<Rightarrow> True | Infinity neg \<Rightarrow> False | NaN \<Rightarrow> False)"

definition fixed2 :: "string \<Rightarrow> bool" where
  "fixed2 t =
     (case rev t of
        d2 # d1 # p # ip \<Rightarrow>
          is_dec d2 \<and> is_dec d1 \<and> p = CHR ''.'' \<and> ip \<noteq> [] \<and> list_all is_dec ip
      | _ \<Rightarrow> False)"

definition two_decimals :: "string \<Rightarrow> bool" where
  "two_decimals t = (fixed2 t \<or> (t \<noteq> [] \<and> hd t = CHR ''-'' \<and> fixed2 (tl t)))"

definition signed_two_decimals :: "string \<Rightarrow> bool" where
  "signed_two_decimals t = (t \<noteq> [] \<and> (hd t = CHR ''+'' \<or> hd t = CHR ''-'') \<and> fixed2 (tl t))"

fun grouped_rev :: "string \<Rightarrow> bool" where
  "grouped_rev (a # b # c # d # ds) =
     (is_dec a \<and> is_dec b \<and> is_dec c \<and> d = CHR '','' \<and> grouped_rev ds)"
| "grouped_rev ds = (ds \<noteq> [] \<and> list_all is_dec ds)"

definition grouped :: "string \<Rightarrow> bool" where
  "grouped t = (grouped_rev (rev t) \<or> (t \<noteq> [] \<and> hd t = CHR ''-'' \<and> grouped_rev (rev (tl t))))"

fun split_on :: "char \<Rightarrow> string \<Rightarrow> string list" where
  "split_on c [] = [[]]"
| "split_on c (x # xs) =
     (case split_on c xs of
        [] \<Rightarrow> [[x]]
      | f # fs \<Rightarrow> if x = c then [] # f # fs else (x # f) # fs)"

lemma is_dec_digits: "\<forall>m \<in> set [0..<10]. is_dec (''0123456789'' ! m)"
  by code_simp

lemma is_dec_digit_char [simp]: "is_dec (digit_char n)"
proof -
  have "n mod 10 \<in> set [0..<10]" by simp
  with is_dec_digits show ?thesis unfolding digit_char_def by blast
qed

lemma show_nat_digits: "show_nat n \<noteq> [] \<and> list_all is_dec (show_nat n)"
proof (induction n rule: show_nat.induct)
  case (1 n)
  show ?case
  proof (cases "n < 10")
    case True
    then show ?thesis by (subst (1 2) show_nat.simps) simp
  next
    case False
    with 1 show ?thesis by (subst (1 2) show_nat.simps) simp
  qed
qed

lemma fixed2_digits:
  "ip \<noteq> [] \<Longrightarrow> list_all is_dec ip \<Longrightarrow> is_dec a \<Longrightarrow> is_dec b \<Longrightarrow>
     fixed2 (ip @ [CHR ''.'', a, b])"
  by (simp add: fixed2_def)

lemma fmt_2f_finite_shape:
  "\<exists>u. fmt_2f always (Finite neg m) = sign_str always neg @ u \<and> fixed2 u"
proof -
  let ?n = "nat (round_half_even (\<bar>m\<bar> * 100))"
  let ?u = "show_nat (?n div 100) @ [CHR ''.'', digit_char (?n div 10), digit_char ?n]"
  have "fmt_2f always (Finite neg m) = sign_str always neg @ ?u"
    by (simp add: Let_def)
  moreover have "fixed2 ?u"
    using show_nat_digits [of "?n div 100"] by (intro fixed2_digits) simp_all
  ultimately show ?thesis by blast
qed

lemma two_decimals_fmt_2f: "two_decimals (fmt_2f False (Finite neg m))"
proof -
  obtain u where u: "fmt_2f False (Finite neg m) = sign_str False neg @ u" "fixed2 u"
    using fmt_2f_finite_shape by blast
  then show ?thesis
    by (cases neg) (simp_all add: two_decimals_def sign_str_def)
qed

lemma signed_two_decimals_fmt_2f: "signed_two_decimals (fmt_2f True (Finite neg m))"
proof -
  obtain u where u: "fmt_2f True (Finite neg m) = sign_str True neg @ u" "fixed2 u"
    using fmt_2f_finite_shape by blast
  then show ?thesis
    by (cases neg) (simp_all add: signed_two_decimals_def sign_str_def)
qed

lemma grouped_rev_group3:
  "ds \<noteq> [] \<Longrightarrow> list_all is_dec ds \<Longrightarrow> grouped_rev (group3 ds)"
  by (induction ds rule: group3.induct) simp_all

lemma grouped_fmt_grouped: "grouped (fmt_grouped v)"
proof -
  let ?ds = "rev (show_nat (nat \<bar>v\<bar>))"
  have g: "grouped_rev (group3 ?ds)"
    using show_nat_digits [of "nat \<bar>v\<bar>"] by (intro grouped_rev_group3) simp_all
  show ?thesis
  proof (cases "v < 0")
    case True
    then have "fmt_grouped v = CHR ''-'' # rev (group3 ?ds)"
      by (simp add: fmt_grouped_def)
    with g show ?thesis by (simp add: grouped_def)
  next
    case False
    then have "fmt_grouped v = rev (group3 ?ds)"
      by (simp add: fmt_grouped_def)
    with g show ?thesis by (simp add: grouped_def)
  qed
qed

lemma header_nine_columns:
  "length header_columns = 9 \<and> split_on (CHR '','') (join '','' header_columns) = header_columns"
  by (simp add: header_columns_def col_code_def col_name_def col_price_def col_change_def
      col_open_def col_high_def col_low_def col_volume_def col_timestamp_def)

lemma is_finite_two_decimals: "is_finite x \<Longrightarrow> two_decimals (fmt_2f False x)"
  by (cases x) (simp_all add: is_finite_def two_decimals_fmt_2f del: fmt_2f.simps)

lemma is_finite_signed_two_decimals: "is_finite x \<Longrightarrow> signed_two_decimals (fmt_2f True x)"
  by (cases x) (simp_all add: is_finite_def signed_two_decimals_fmt_2f del: fmt_2f.simps)

lemma csv_fields_shape:
  "length (csv_fields kv) = 9 \<and>
   csv_fields kv ! 0 = fst kv \<and>
   csv_fields kv ! 1 = name (snd kv) \<and>
   csv_fields kv ! 2 = fmt_2f False (price (snd kv)) \<and>
   csv_fields kv ! 3 = fmt_2f True (change (snd kv)) \<and>
   csv_fields kv ! 4 = fmt_2f False (open' (snd kv)) \<and>
   csv_fields kv ! 5 = fmt_2f False (high (snd kv)) \<and>
   csv_fields kv ! 6 = fmt_2f False (low (snd kv)) \<and>
   csv_fields kv ! 7 = fmt_grouped (volume (snd kv)) \<and>
   csv_fields kv ! 8 = timestamp (snd kv) \<and>
   (is_finite (price (snd kv)) \<longrightarrow> two_decimals (csv_fields kv ! 2)) \<and>
   (is_finite (change (snd kv)) \<longrightarrow> signed_two_decimals (csv_fields kv ! 3)) \<and>
   (is_finite (open' (snd kv)) \<longrightarrow> two_decimals (csv_fields kv ! 4)) \<and>
   (is_finite (high (snd kv)) \<longrightarrow> two_decimals (csv_fields kv ! 5)) \<and>
   (is_finite (low (snd kv)) \<longrightarrow> two_decimals (csv_fields kv ! 6)) \<and>
   grouped (csv_fields kv ! 7)"
  by (simp add: csv_fields_def Let_def is_finite_two_decimals is_finite_signed_two_decimals
      grouped_fmt_grouped del: fmt_2f.simps)

lemma exports_export_data:
  "stocks s \<noteq> [] \<Longrightarrow> file_path \<noteq> [] \<Longrightarrow>
     exports (export_data linesep file_path True s) =
       exports s @ [(file_path, export_content linesep (stocks s))]"
  by (simp add: export_data_def notify_def)

text \<open>
  Claim C8. When the dictionary is not empty and a file is chosen and can be written,
  \<^verbatim>\<open>export_data\<close> writes the byte order mark, the header line of nine
  comma-separated column names, and then one line per tracked code, in the order of the
  dictionary. The fields of a line are the code, the name, the price, the change, the open,
  high and low prices, the volume and the time stamp, each written with the format the
  f-string gives it. The volume is written in groups of three digits; the price, open,
  high and low are written with exactly two decimals, and the change with a sign and two
  decimals, for the finite floats of the data model.
\<close>

theorem export_data_writes_header_and_rows:
  "stocks s \<noteq> [] \<and> file_path \<noteq> [] \<longrightarrow>
     exports (export_data linesep file_path True s) =
       exports s @
       [(file_path,
         bom @ join '','' header_columns @ linesep @
         concat (map (\<lambda>kv. write_text linesep (join '','' (csv_fields kv) @ [newline]))
                   (stocks s)))] \<and>
     length header_columns = 9 \<and>
     split_on (CHR '','') (join '','' header_columns) = header_columns \<and>
     (\<forall>kv \<in> set (stocks s).
        length (csv_fields kv) = 9 \<and>
        csv_fields kv ! 0 = fst kv \<and>
        csv_fields kv ! 1 = name (snd kv) \<and>
        csv_fields kv ! 2 = fmt_2f False (price (snd kv)) \<and>
        csv_fields kv ! 3 = fmt_2f True (change (snd kv)) \<and>
        csv_fields kv ! 4 = fmt_2f False (open' (snd kv)) \<and>
        csv_fields kv ! 5 = fmt_2f False (high (snd kv)) \<and>
        csv_fields kv ! 6 = fmt_2f False (low (snd kv)) \<and>
        csv_fields kv ! 7 = fmt_grouped (volume (snd kv)) \<and>
        csv_fields kv ! 8 = timestamp (snd kv) \<and>
        (is_finite (price (snd kv)) \<longrightarrow> two_decimals (csv_fields kv ! 2)) \<and>
        (is_finite (change (snd kv)) \<longrightarrow> signed_two_decimals (csv_fields kv ! 3)) \<and>
        (is_finite (open' (snd kv)) \<longrightarrow> two_decimals (csv_fields kv ! 4)) \<and>
        (is_finite (high (snd kv)) \<longrightarrow> two_decimals (csv_fields kv ! 5)) \<and>
        (is_finite (low (snd kv)) \<longrightarrow> two_decimals (csv_fields kv ! 6)) \<and>
        grouped (csv_fields kv ! 7))"
proof (intro impI conjI ballI)
  assume a: "stocks s \<noteq> [] \<and> file_path \<noteq> []"
  then show "exports (export_data linesep file_path True s) =
       exports s @
       [(file_path,
         bom @ join '','' header_columns @ linesep @
         concat (map (\<lambda>kv. write_text linesep (join '','' (csv_fields kv) @ [newline]))
                   (stocks s)))]"
    by (simp add: exports_export_data export_content_def csv_line_def)
qed (use header_nine_columns csv_fields_shape in blast)+

text \<open>An instance, with the figures of the specification's example: price 580.00, change
  +5.50, volume 12,345,678.\<close>

definition one_tracked :: state where
  "one_tracked =
     run Some [Edit_code ''2330'', Press_add, Thread_runs ''2330'' example_env] (init None)"

lemma one_tracked_fields:
  "stocks one_tracked = [(''2330'', example_info ''2330'')]" "exports one_tracked = []"
  by (simp_all add: one_tracked_def op_defs text_defs example_defs)

theorem export_data_writes_header_and_rows_witness:
  "exports (export_data [newline] ''out.csv'' True one_tracked) =
     [(''out.csv'',
       bom @ join '','' header_columns @ [newline] @
       ''2330,2330,580.00,+5.50,575.00,582.00,574.00,12,345,678,2026-11-04 13:30:00'' @ [newline])] \<and>
   two_decimals ''580.00'' \<and> signed_two_decimals ''+5.50'' \<and> grouped ''12,345,678''"
proof -
  have f: "csv_fields (''2330'', example_info ''2330'') =
      [''2330'', ''2330'', ''580.00'', ''+5.50'', ''575.00'', ''582.00'', ''574.00'',
       ''12,345,678'', ''2026-11-04 13:30:00'']"
    by (simp add: csv_fields_def example_defs format_defs)
  have pre: "stocks one_tracked \<noteq> [] \<and> ''out.csv'' \<noteq> []"
    by (simp add: one_tracked_fields)
  from export_data_writes_header_and_rows [of one_tracked "''out.csv''" "[newline]"] pre
  have e: "exports (export_data [newline] ''out.csv'' True one_tracked) =
       exports one_tracked @
       [(''out.csv'',
         bom @ join '','' header_columns @ [newline] @
         concat (map (\<lambda>kv. write_text [newline] (join '','' (csv_fields kv) @ [newline]))
                   (stocks one_tracked)))]"
    by blast
  have shapes: "two_decimals ''580.00''" "signed_two_decimals ''+5.50''" "grouped ''12,345,678''"
    by (simp_all add: two_decimals_def signed_two_decimals_def grouped_def fixed2_def is_dec_def)
  from e shapes show ?thesis
    by (simp add: one_tracked_fields f write_text_def utf8_char_def)
qed

section \<open>The spin box and the refresh interval\<close>

text \<open>\<^verbatim>\<open>int\<close> reads back the decimal text of a number below one thousand.\<close>

lemma digit_val_digits: "\<forall>m \<in> set [0..<10]. digit_val (''0123456789'' ! m) = m"
  by code_simp

lemma digit_val_digit_char: "digit_val (digit_char n) = n mod 10"
proof -
  have "n mod 10 \<in> set [0..<10]" by simp
  with digit_val_digits show ?thesis unfolding digit_char_def by blast
qed

lemma is_dec_not_space: "is_dec c \<Longrightarrow> \<not> numeric_space c"
  by (auto simp: is_dec_def numeric_space_def)

lemma is_dec_not_sign: "is_dec c \<Longrightarrow> c \<noteq> CHR ''-'' \<and> c \<noteq> CHR ''+'' \<and> c \<noteq> CHR ''_''"
  by (auto simp: is_dec_def)

lemma digitpart_digits: "xs \<noteq> [] \<Longrightarrow> list_all is_dec xs \<Longrightarrow> digitpart xs"
  by (induction xs rule: digitpart.induct) (auto dest: is_dec_not_sign)

lemma numeric_strip_digits:
  assumes "xs \<noteq> []" and "list_all is_dec xs"
  shows "numeric_strip xs = xs"
proof -
  from assms have "is_dec (hd xs)" and "is_dec (last xs)"
    by (simp_all add: list_all_iff)
  then have h: "\<not> numeric_space (hd xs)" and l: "\<not> numeric_space (last xs)"
    by (simp_all add: is_dec_not_space)
  from assms(1) h have "dropWhile numeric_space xs = xs"
    by (cases xs) simp_all
  moreover from assms(1) l have "dropWhile numeric_space (rev xs) = rev xs"
    by (cases xs rule: rev_cases) simp_all
  ultimately show ?thesis by (simp add: numeric_strip_def)
qed

lemma split_sign_digits:
  assumes "xs \<noteq> []" and "list_all is_dec xs"
  shows "split_sign xs = (False, xs)"
  using assms by (cases xs) (auto simp: split_sign_def dest: is_dec_not_sign)

lemma nat_of_digits_snoc:
  "is_dec d \<Longrightarrow> nat_of_digits (xs @ [d]) = 10 * nat_of_digits xs + digit_val d"
  by (simp add: nat_of_digits_def)

lemma nat_of_digits_show_nat: "nat_of_digits (show_nat n) = n"
proof (induction n rule: show_nat.induct)
  case (1 n)
  show ?case
  proof (cases "n < 10")
    case True
    then show ?thesis
      by (subst show_nat.simps) (simp add: nat_of_digits_def digit_val_digit_char)
  next
    case False
    with 1 show ?thesis
      by (subst show_nat.simps) (simp add: nat_of_digits_snoc digit_val_digit_char)
  qed
qed

lemma length_show_nat_small: "n < 10 \<Longrightarrow> length (show_nat n) = 1"
  by (subst show_nat.simps) simp

lemma length_show_nat_step:
  "\<not> n < 10 \<Longrightarrow> length (show_nat n) = Suc (length (show_nat (n div 10)))"
  by (subst show_nat.simps) simp

lemma length_show_nat:
  assumes "n < 1000"
  shows "length (show_nat n) \<le> 3"
proof (cases "n < 10")
  case True
  then show ?thesis by (simp add: length_show_nat_small)
next
  case False
  show ?thesis
  proof (cases "n div 10 < 10")
    case True
    with False show ?thesis
      by (simp add: length_show_nat_step length_show_nat_small)
  next
    case f2: False
    from assms have "n div 10 div 10 < 10" by simp
    with False f2 show ?thesis
      by (simp add: length_show_nat_step length_show_nat_small)
  qed
qed

lemma py_int_show_nat: "n < 1000 \<Longrightarrow> py_int (show_nat n) = Inr (int n)"
  using show_nat_digits [of n] length_show_nat [of n]
  by (simp add: py_int_def numeric_strip_digits split_sign_digits digitpart_digits
      nat_of_digits_show_nat max_str_digits_def)
     (meson le_trans length_filter_le numeral_le_iff semiring_norm)

text \<open>What the spin box leaves in its text is the text of a whole number from 5 to 300,
  and \<^verbatim>\<open>update_refresh_interval\<close> takes a thousand times that number.\<close>

lemma limit_bounds: "5 \<le> limit v \<and> limit v \<le> 300"
  by (cases v) (simp_all add: limit_def spin_from_def spin_to_def)

lemma round_half_even_bounds:
  assumes "5 \<le> q" and "q \<le> 300"
  shows "5 \<le> round_half_even q \<and> round_half_even q \<le> 300"
proof -
  let ?f = "\<lfloor>q\<rfloor>"
  have lo: "5 \<le> ?f" using assms(1) by (simp add: le_floor_iff)
  have hi: "?f \<le> 300" using assms(2) by (simp add: floor_le_iff)
  have up: "?f + 1 \<le> 300" if "1 / 2 \<le> q - of_int ?f"
  proof -
    from that assms(2) have "(of_int ?f :: rat) < 300" by linarith
    then have "?f < 300" by (simp only: of_int_less_numeral_iff)
    then show ?thesis by linarith
  qed
  show ?thesis
    using lo hi up by (auto simp: round_half_even_def Let_def)
qed

definition spin_value :: "tcl_value option \<Rightarrow> int" where
  "spin_value v =
     round_half_even (limit (case v of None \<Rightarrow> Number spin_from | Some x \<Rightarrow> x))"

lemma spin_value_bounds: "5 \<le> spin_value v \<and> spin_value v \<le> 300"
  using limit_bounds by (simp add: spin_value_def round_half_even_bounds)

lemma interval_var_spin_text:
  "py_int (format_value (limit (case v of None \<Rightarrow> Number spin_from | Some x \<Rightarrow> x))) =
     Inr (spin_value v)"
proof -
  from spin_value_bounds [of v] have "nat (spin_value v) < 1000" "0 \<le> spin_value v"
    by linarith+
  then show ?thesis
    using py_int_show_nat [of "nat (spin_value v)"]
    by (simp add: format_value_def spin_value_def)
qed

lemma spin_fields:
  "refresh_interval (spin v s) = spin_value v * 1000"
  "timers (spin v s) =
     (if auto_refresh_var s then timers s @ [spin_value v * 1000] else timers s)"
  by (simp_all add: spin_def update_refresh_interval_def interval_var_spin_text Let_def)

text \<open>The refresh interval and the delay of every pending timer are within the range,
  and every step keeps them there.\<close>

definition interval_ok :: "int \<Rightarrow> bool" where
  "interval_ok t = (5000 \<le> t \<and> t \<le> 300000)"

definition intervals_ok :: "state \<Rightarrow> bool" where
  "intervals_ok s = (interval_ok (refresh_interval s) \<and> list_all interval_ok (timers s))"

lemma interval_ok_spin_value: "interval_ok (spin_value v * 1000)"
  using spin_value_bounds [of v] by (simp add: interval_ok_def)

lemma fetch_stock_refresh_interval [simp]:
  "refresh_interval (fetch_stock rnd c env s) = refresh_interval s"
  by (simp add: fetch_stock_def request_failed_def Let_def
      split: response.splits option.splits sum.splits request_exception.splits)

lemma intervals_ok_schedule_refresh:
  "intervals_ok s \<Longrightarrow> intervals_ok (schedule_refresh s)"
  by (simp add: intervals_ok_def)

lemma list_all_without:
  "list_all P xs \<Longrightarrow> list_all P (take i xs) \<and> list_all P (drop (Suc i) xs)"
  by (auto simp: list_all_iff dest: in_set_takeD in_set_dropD)

lemma intervals_ok_step: "intervals_ok s \<Longrightarrow> intervals_ok (step rnd e s)"
proof (cases e)
  case (Edit_code t)
  assume "intervals_ok s"
  with Edit_code show ?thesis by (simp add: intervals_ok_def)
next
  case Press_add
  assume "intervals_ok s"
  with Press_add show ?thesis
    by (simp add: intervals_ok_def add_stock_def Let_def start_thread_def)
next
  case Press_refresh
  assume "intervals_ok s"
  with Press_refresh show ?thesis by (simp add: intervals_ok_def)
next
  case Click_auto_refresh
  assume "intervals_ok s"
  with Click_auto_refresh show ?thesis
    by (simp add: intervals_ok_def toggle_auto_refresh_def)
next
  case (Edit_interval t)
  assume "intervals_ok s"
  with Edit_interval show ?thesis by (simp add: intervals_ok_def)
next
  case (Spin v)
  assume "intervals_ok s"
  with Spin show ?thesis
    by (simp add: intervals_ok_def spin_fields interval_ok_spin_value)
next
  case (Press_export linesep file_path ok)
  assume "intervals_ok s"
  with Press_export show ?thesis
    by (simp add: intervals_ok_def export_data_def notify_def)
next
  case (Press_delete selected ok)
  assume "intervals_ok s"
  with Press_delete show ?thesis
    by (simp add: intervals_ok_def delete_selected_def)
next
  case (Press_clear confirmed ok)
  assume "intervals_ok s"
  with Press_clear show ?thesis
    by (simp add: intervals_ok_def clear_all_def)
next
  case (Thread_runs c env)
  assume "intervals_ok s"
  with Thread_runs show ?thesis
    by (simp add: intervals_ok_def thread_runs_def)
next
  case (Timer_fires i)
  assume "intervals_ok s"
  with Timer_fires show ?thesis
    by (simp add: intervals_ok_def timer_fires_def list_all_without)
qed

lemma intervals_ok_init: "intervals_ok (init cfg)"
  by (simp add: intervals_ok_def interval_ok_def init_def load_stocks_def split: option.splits)

lemma intervals_ok_run: "intervals_ok (run rnd es (init cfg))"
  by (induction es rule: rev_induct) (simp_all add: intervals_ok_init intervals_ok_step)

text \<open>
  Claim C4. In every state the application reaches, the refresh interval lies between
  5000 and 300000 milliseconds, and so does the delay of every timer that is pending.
  The policy is to clamp: when an arrow of the spin box is pressed, a value below 5 gives
  the interval 5000 and a value above 300 gives 300000, a value in between gives a
  thousand times the value rounded to a whole number, and text that is not a number gives
  5000. With auto-refresh on, the timer is armed with that interval.
\<close>

theorem refresh_interval_limited_to_spin_box_range:
  "5000 \<le> refresh_interval (run rnd es (init cfg)) \<and>
   refresh_interval (run rnd es (init cfg)) \<le> 300000 \<and>
   list_all (\<lambda>t. 5000 \<le> t \<and> t \<le> 300000) (timers (run rnd es (init cfg))) \<and>
   refresh_interval (step rnd (Spin None) s) = 5000 \<and>
   refresh_interval (step rnd (Spin (Some Minus_infinity)) s) = 5000 \<and>
   refresh_interval (step rnd (Spin (Some Plus_infinity)) s) = 300000 \<and>
   (q < 5 \<longrightarrow> refresh_interval (step rnd (Spin (Some (Number q))) s) = 5000) \<and>
   (300 < q \<longrightarrow> refresh_interval (step rnd (Spin (Some (Number q))) s) = 300000) \<and>
   (5 \<le> q \<and> q \<le> 300 \<longrightarrow>
      refresh_interval (step rnd (Spin (Some (Number q))) s) = round_half_even q * 1000) \<and>
   (auto_refresh_var s \<longrightarrow>
      timers (step rnd (Spin v) s) = timers s @ [refresh_interval (step rnd (Spin v) s)])"
proof -
  have r5: "round_half_even 5 = 5" and r300: "round_half_even 300 = 300"
    by (simp_all add: round_half_even_def)
  from intervals_ok_run [of rnd es cfg]
  have "5000 \<le> refresh_interval (run rnd es (init cfg)) \<and>
        refresh_interval (run rnd es (init cfg)) \<le> 300000 \<and>
        list_all (\<lambda>t. 5000 \<le> t \<and> t \<le> 300000) (timers (run rnd es (init cfg)))"
    by (simp add: intervals_ok_def interval_ok_def list_all_iff)
  then show ?thesis
    by (simp add: spin_fields spin_value_def limit_def spin_from_def spin_to_def r5 r300)
qed

text \<open>An instance: 1 is typed and the up arrow pressed, which gives 5000; 1000 is typed
  and the up arrow pressed, which gives 300000; and 60 is typed and the up arrow pressed,
  which gives 61000.\<close>

theorem refresh_interval_limited_to_spin_box_range_witness:
  "refresh_interval (step Some (Spin (Some (Number 2)))
      (run Some [Click_auto_refresh, Edit_interval ''1''] (init None))) = 5000 \<and>
   refresh_interval (step Some (Spin (Some (Number 1001)))
      (run Some [Click_auto_refresh, Edit_interval ''1000''] (init None))) = 300000 \<and>
   refresh_interval (step Some (Spin (Some (Number 61)))
      (run Some [Click_auto_refresh, Edit_interval ''60''] (init None))) = 61000 \<and>
   timers (step Some (Spin (Some (Number 2)))
      (run Some [Click_auto_refresh, Edit_interval ''1''] (init None))) = [30000, 5000]"
proof -
  let ?s = "run Some [Click_auto_refresh, Edit_interval ''1''] (init None)"
  have on: "auto_refresh_var ?s" "timers ?s = [30000]"
    by (simp_all add: op_defs)
  have r: "round_half_even 61 = 61"
    by (simp add: round_half_even_def)
  from refresh_interval_limited_to_spin_box_range
         [of Some "[]" None ?s 2 "Some (Number 2)"]
       refresh_interval_limited_to_spin_box_range
         [of Some "[]" None "run Some [Click_auto_refresh, Edit_interval ''1000''] (init None)" 1001]
       refresh_interval_limited_to_spin_box_range
         [of Some "[]" None "run Some [Click_auto_refresh, Edit_interval ''60''] (init None)" 61]
       on r
  show ?thesis by simp
qed

end
